theory Spec2Isabelle
  imports Complex_Main "HOL-Library.Sublist" "HOL-Library.AList"
begin

section \<open>Values\<close>

text \<open>
  The dashboard engine of \<^verbatim>\<open>api.py\<close> reads pandas frames row by row. A cell of a
  row is a number, the missing-data marker NaN, or a text; an object column can also hold
  \<^verbatim>\<open>None\<close> or a list. A row of a frame with mixed column types holds native Python
  objects; a row of a frame whose columns are all numeric holds numpy scalars
  (\<^verbatim>\<open>np.generic\<close>), so a number records where it comes from.

  A float is modelled by a rational, the decimal it is read from, and a product or a
  quotient of floats by the exact product or quotient: the rounding of double precision
  is not modelled, nor are the infinities, and an integer has no bound. Where a double
  falls just short of an integer that the exact value reaches, \<^verbatim>\<open>int\<close> cuts the
  double one lower than the exact value is cut here (\<^verbatim>\<open>int(0.29 * 100)\<close> is 28). The
  one place where the doubles are numpy's own, the fit of the forecast, takes them as a
  parameter.
\<close>

datatype origin = Native | Numpy

datatype num = NaN | I int | F rat

datatype pyval = PyNone | Num origin num | Txt string | PyList "pyval list"

section \<open>Strings\<close>

text \<open>
  Strings are byte lists; \<^verbatim>\<open>lower\<close>, \<^verbatim>\<open>strip\<close> and the reading of an integer
  literal act on ASCII: the digits and the blanks outside ASCII that Python also accepts
  are left out.
\<close>

definition lower_char :: "char \<Rightarrow> char" where
  "lower_char c = (let n = (of_char c :: nat) in
     if 65 \<le> n \<and> n \<le> 90 then char_of (n + 32) else c)"

definition lower :: "string \<Rightarrow> string" where
  "lower s = map lower_char s"

text \<open>\<^verbatim>\<open>sub in s\<close> on strings.\<close>

definition py_in :: "string \<Rightarrow> string \<Rightarrow> bool" where
  "py_in sub s = sublist sub s"

definition is_space :: "char \<Rightarrow> bool" where
  "is_space c = (c \<in> set [CHR '' '', CHR 0x09, CHR 0x0A, CHR 0x0B, CHR 0x0C, CHR 0x0D,
                            CHR 0x1C, CHR 0x1D, CHR 0x1E, CHR 0x1F])"

definition strip :: "string \<Rightarrow> string" where
  "strip s = rev (dropWhile is_space (rev (dropWhile is_space s)))"

text \<open>The blanks \<^verbatim>\<open>int(str)\<close> skips around a literal: fewer than \<^verbatim>\<open>strip\<close> removes.\<close>

definition is_literal_space :: "char \<Rightarrow> bool" where
  "is_literal_space c = (c \<in> set [CHR '' '', CHR 0x09, CHR 0x0A, CHR 0x0B, CHR 0x0C, CHR 0x0D])"

definition strip_literal :: "string \<Rightarrow> string" where
  "strip_literal s = rev (dropWhile is_literal_space (rev (dropWhile is_literal_space s)))"

text \<open>\<^verbatim>\<open>s.replace(old, new)\<close> for a non-empty \<^verbatim>\<open>old\<close>, scanning left to right.\<close>

fun replace_fuel :: "nat \<Rightarrow> string \<Rightarrow> string \<Rightarrow> string \<Rightarrow> string" where
  "replace_fuel 0 old new s = s"
| "replace_fuel (Suc k) old new [] = []"
| "replace_fuel (Suc k) old new (c # cs) =
     (if prefix old (c # cs) then new @ replace_fuel k old new (drop (length old) (c # cs))
      else c # replace_fuel k old new cs)"

definition replace :: "string \<Rightarrow> string \<Rightarrow> string \<Rightarrow> string" where
  "replace old new s = (if old = [] then s else replace_fuel (length s) old new s)"

fun join :: "string \<Rightarrow> string list \<Rightarrow> string" where
  "join sep [] = []"
| "join sep [x] = x"
| "join sep (x # y # ys) = x @ sep @ join sep (y # ys)"

subsection \<open>Decimal numerals\<close>

definition digit_char :: "nat \<Rightarrow> char" where
  "digit_char d = char_of (48 + d)"

fun show_nat :: "nat \<Rightarrow> string" where
  "show_nat n = (if n < 10 then [digit_char n] else show_nat (n div 10) @ [digit_char (n mod 10)])"

declare show_nat.simps [simp del]

definition show_int :: "int \<Rightarrow> string" where
  "show_int i = (if i < 0 then CHR ''-'' # show_nat (nat (- i)) else show_nat (nat i))"

definition is_digit :: "char \<Rightarrow> bool" where
  "is_digit c = (48 \<le> (of_char c :: nat) \<and> (of_char c :: nat) \<le> 57)"

definition digit_val :: "char \<Rightarrow> int" where
  "digit_val c = int (of_char c) - 48"

text \<open>
  The body of an integer literal as \<^verbatim>\<open>int(str)\<close> accepts it: digits, with single
  underscores between them.
\<close>

fun no_double_underscore :: "string \<Rightarrow> bool" where
  "no_double_underscore (a # b # cs) =
     (\<not> (a = CHR ''_'' \<and> b = CHR ''_'') \<and> no_double_underscore (b # cs))"
| "no_double_underscore cs = True"

definition parse_digits :: "string \<Rightarrow> int option" where
  "parse_digits ds =
     (if ds = [] then None
      else if is_digit (hd ds) \<and> is_digit (last ds)
              \<and> list_all (\<lambda>c. is_digit c \<or> c = CHR ''_'') ds \<and> no_double_underscore ds
      then Some (foldl (\<lambda>a c. 10 * a + digit_val c) 0 (filter is_digit ds))
      else None)"

definition parse_int :: "string \<Rightarrow> int option" where
  "parse_int s =
     (case strip_literal s of
        [] \<Rightarrow> None
      | c # cs \<Rightarrow>
          if c = CHR ''-'' then map_option uminus (parse_digits cs)
          else if c = CHR ''+'' then parse_digits cs
          else parse_digits (c # cs))"

subsection \<open>Rendering numbers\<close>

definition trunc :: "rat \<Rightarrow> int" where
  "trunc r = (if 0 \<le> r then \<lfloor>r\<rfloor> else \<lceil>r\<rceil>)"

fun frac_digits :: "nat \<Rightarrow> rat \<Rightarrow> string" where
  "frac_digits 0 f = []"
| "frac_digits (Suc k) f =
     (if f = 0 then []
      else digit_char (nat \<lfloor>f * 10\<rfloor>) # frac_digits k (f * 10 - of_int \<lfloor>f * 10\<rfloor>))"

text \<open>
  \<^verbatim>\<open>repr\<close> of a float, for the values with a short decimal expansion that a CSV
  literal gives: \<^verbatim>\<open>5.0\<close>, \<^verbatim>\<open>0.3\<close>, \<^verbatim>\<open>-2.25\<close>. The form with an exponent, which
  Python writes from \<^verbatim>\<open>1e16\<close> on and below \<^verbatim>\<open>1e-4\<close>, is left out.
\<close>

definition float_repr :: "rat \<Rightarrow> string" where
  "float_repr r =
     (let t = trunc r; f = \<bar>r - of_int t\<bar> in
      (if r < 0 then ''-'' else '''') @ show_nat (nat \<bar>t\<bar>) @ ''.''
        @ (if f = 0 then ''0'' else frac_digits 17 f))"

definition num_str :: "num \<Rightarrow> string" where
  "num_str n = (case n of NaN \<Rightarrow> ''nan'' | I i \<Rightarrow> show_int i | F r \<Rightarrow> float_repr r)"

text \<open>
  \<^verbatim>\<open>str(v)\<close>, which is also how an f-string renders \<^verbatim>\<open>{v}\<close>. A list shows the
  \<^verbatim>\<open>repr\<close> of its elements: a text in quotes (escapes are left out).
\<close>

fun py_str :: "pyval \<Rightarrow> string" and py_repr :: "pyval \<Rightarrow> string" where
  "py_str PyNone = ''None''"
| "py_str (Num _ n) = num_str n"
| "py_str (Txt s) = s"
| "py_str (PyList xs) = ''['' @ join '', '' (map py_repr xs) @ '']''"
| "py_repr (Txt s) = [CHR 0x27] @ s @ [CHR 0x27]"
| "py_repr PyNone = py_str PyNone"
| "py_repr (Num k n) = py_str (Num k n)"
| "py_repr (PyList xs) = py_str (PyList xs)"

section \<open>Operators\<close>

datatype error = KeyError | TypeError | ValueError

definition ebind :: "error + 'a \<Rightarrow> ('a \<Rightarrow> error + 'b) \<Rightarrow> error + 'b" where
  "ebind m f = (case m of Inl e \<Rightarrow> Inl e | Inr x \<Rightarrow> f x)"

fun emap :: "('a \<Rightarrow> error + 'b) \<Rightarrow> 'a list \<Rightarrow> error + 'b list" where
  "emap f [] = Inr []"
| "emap f (x # xs) = ebind (f x) (\<lambda>y. ebind (emap f xs) (\<lambda>ys. Inr (y # ys)))"

definition num_rat :: "num \<Rightarrow> rat option" where
  "num_rat n = (case n of NaN \<Rightarrow> None | I i \<Rightarrow> Some (of_int i) | F r \<Rightarrow> Some r)"

fun num_mul :: "num \<Rightarrow> num \<Rightarrow> num" where
  "num_mul (I a) (I b) = I (a * b)"
| "num_mul a b =
     (case (num_rat a, num_rat b) of (Some x, Some y) \<Rightarrow> F (x * y) | _ \<Rightarrow> NaN)"

definition num_div :: "num \<Rightarrow> int \<Rightarrow> num" where
  "num_div a d = (case num_rat a of None \<Rightarrow> NaN | Some x \<Rightarrow> F (x / of_int d))"

definition mix :: "origin \<Rightarrow> origin \<Rightarrow> origin" where
  "mix a b = (if a = Numpy \<or> b = Numpy then Numpy else Native)"

text \<open>
  \<^verbatim>\<open>a * b\<close>: numbers multiply, a text or a list is repeated by an integer, anything
  else is a \<^verbatim>\<open>TypeError\<close>.
\<close>

fun py_mul :: "pyval \<Rightarrow> pyval \<Rightarrow> error + pyval" where
  "py_mul (Num k a) (Num l b) = Inr (Num (mix k l) (num_mul a b))"
| "py_mul (Txt s) (Num _ (I n)) = Inr (Txt (concat (replicate (nat n) s)))"
| "py_mul (Num _ (I n)) (Txt s) = Inr (Txt (concat (replicate (nat n) s)))"
| "py_mul (PyList xs) (Num _ (I n)) = Inr (PyList (concat (replicate (nat n) xs)))"
| "py_mul (Num _ (I n)) (PyList xs) = Inr (PyList (concat (replicate (nat n) xs)))"
| "py_mul _ _ = Inl TypeError"

text \<open>\<^verbatim>\<open>a / d\<close> for a non-zero integer constant \<^verbatim>\<open>d\<close>.\<close>

fun py_truediv :: "pyval \<Rightarrow> int \<Rightarrow> error + pyval" where
  "py_truediv (Num k a) d = Inr (Num k (num_div a d))"
| "py_truediv _ d = Inl TypeError"

text \<open>\<^verbatim>\<open>a >= k\<close> and \<^verbatim>\<open>a > k\<close> for an integer constant: NaN compares false.\<close>

fun py_ge :: "pyval \<Rightarrow> int \<Rightarrow> error + bool" where
  "py_ge (Num _ n) k = Inr (case num_rat n of None \<Rightarrow> False | Some x \<Rightarrow> of_int k \<le> x)"
| "py_ge _ k = Inl TypeError"

fun py_gt :: "pyval \<Rightarrow> int \<Rightarrow> error + bool" where
  "py_gt (Num _ n) k = Inr (case num_rat n of None \<Rightarrow> False | Some x \<Rightarrow> of_int k < x)"
| "py_gt _ k = Inl TypeError"

text \<open>\<^verbatim>\<open>int(a)\<close>: truncation toward zero on a number.\<close>

fun py_int :: "pyval \<Rightarrow> error + int" where
  "py_int (Num _ NaN) = Inl ValueError"
| "py_int (Num _ (I i)) = Inr i"
| "py_int (Num _ (F r)) = Inr (trunc r)"
| "py_int (Txt s) = (case parse_int s of None \<Rightarrow> Inl ValueError | Some i \<Rightarrow> Inr i)"
| "py_int _ = Inl TypeError"

text \<open>
  The truth value of \<^verbatim>\<open>pd.isna(v)\<close>. On a list pandas answers with an array, whose
  truth value is an error unless it has exactly one element.
\<close>

fun isna_truth :: "pyval \<Rightarrow> error + bool" where
  "isna_truth PyNone = Inr True"
| "isna_truth (Num _ n) = Inr (n = NaN)"
| "isna_truth (Txt s) = Inr False"
| "isna_truth (PyList [x]) = isna_truth x"
| "isna_truth (PyList xs) = Inl ValueError"

definition notna_truth :: "pyval \<Rightarrow> error + bool" where
  "notna_truth v = ebind (isna_truth v) (\<lambda>b. Inr (\<not> b))"

text \<open>\<^verbatim>\<open>v != 0\<close> and \<^verbatim>\<open>v != ''\<close>.\<close>

fun ne_zero :: "pyval \<Rightarrow> bool" where
  "ne_zero (Num _ n) = (case num_rat n of None \<Rightarrow> True | Some x \<Rightarrow> x \<noteq> 0)"
| "ne_zero _ = True"

fun ne_empty :: "pyval \<Rightarrow> bool" where
  "ne_empty (Txt s) = (s \<noteq> [])"
| "ne_empty _ = True"

section \<open>Record coercion\<close>

text \<open>
  \<^verbatim>\<open>safe_val(v, default=0)\<close>. The body runs in a \<^verbatim>\<open>try\<close>; whatever it raises is
  answered with the default. \<^verbatim>\<open>isinstance(v, np.generic)\<close> holds of a numpy scalar,
  and \<^verbatim>\<open>v.item()\<close> is the native number of the same value.
\<close>

fun is_np_generic :: "pyval \<Rightarrow> bool" where
  "is_np_generic (Num Numpy n) = True"
| "is_np_generic _ = False"

fun item :: "pyval \<Rightarrow> pyval" where
  "item (Num _ n) = Num Native n"
| "item v = v"

definition safe_val_try :: "pyval \<Rightarrow> pyval \<Rightarrow> error + pyval" where
  "safe_val_try v dflt =
     (if v = PyNone then Inr dflt
      else if is_np_generic v then Inr (item v)
      else ebind (isna_truth v) (\<lambda>na. if na then Inr dflt else Inr v))"

definition safe_val :: "pyval \<Rightarrow> pyval \<Rightarrow> pyval" where
  "safe_val v dflt = (case safe_val_try v dflt of Inl e \<Rightarrow> dflt | Inr x \<Rightarrow> x)"

section \<open>Tables\<close>

text \<open>
  A frame has its column names and its rows, each row giving one cell per column.
  \<^verbatim>\<open>row[name]\<close> raises \<^verbatim>\<open>KeyError\<close> on a column the frame does not have;
  \<^verbatim>\<open>row.get(name, default)\<close> answers the default there. Column names are taken to be
  distinct, as \<^verbatim>\<open>read_csv\<close> makes them.
\<close>

record frame =
  columns :: "string list"
  rows :: "pyval list list"

definition len :: "frame \<Rightarrow> nat" where
  "len df = length (rows df)"

definition row_item :: "string list \<Rightarrow> pyval list \<Rightarrow> string \<Rightarrow> error + pyval" where
  "row_item cols row name =
     (case map_of (zip cols row) name of None \<Rightarrow> Inl KeyError | Some v \<Rightarrow> Inr v)"

definition row_get :: "string list \<Rightarrow> pyval list \<Rightarrow> string \<Rightarrow> pyval \<Rightarrow> pyval" where
  "row_get cols row name dflt =
     (case map_of (zip cols row) name of None \<Rightarrow> dflt | Some v \<Rightarrow> v)"

section \<open>Ingredient usage: the weekly quantity of a shipment\<close>

text \<open>
  \<^verbatim>\<open>weekly_calc(row)\<close> of \<^verbatim>\<open>ingredient_usage\<close>. The tests on the frequency text are
  made in the order of the source: \<^verbatim>\<open>'weekly'\<close> first.
\<close>

definition weekly_calc :: "string list \<Rightarrow> pyval list \<Rightarrow> error + pyval" where
  "weekly_calc cols row =
     ebind (py_mul (safe_val (row_get cols row ''Quantity per shipment'' (Num Native (I 0))) (Num Native (I 0)))
                   (safe_val (row_get cols row ''Number of shipments'' (Num Native (I 0))) (Num Native (I 0))))
       (\<lambda>qty.
          let freq = lower (py_str (safe_val (row_get cols row ''frequency'' (Txt '''')) (Num Native (I 0)))) in
          if py_in ''weekly'' freq then Inr qty
          else if py_in ''biweekly'' freq then py_truediv qty 2
          else if py_in ''monthly'' freq then py_truediv qty 4
          else Inr qty)"

section \<open>Alerts\<close>

record alert =
  atype :: string
  title :: string
  message :: string

text \<open>The body of the loop of \<^verbatim>\<open>alerts\<close>: the alerts one row appends.\<close>

definition alerts_row :: "string list \<Rightarrow> pyval list \<Rightarrow> error + alert list" where
  "alerts_row cols row =
     ebind (row_item cols row ''Ingredient'') (\<lambda>ing.
     let ingredient = py_str ing in
     ebind (row_item cols row ''Number of shipments'') (\<lambda>n.
     ebind (py_ge n 5) (\<lambda>high.
     ebind (if high
            then ebind (py_int n) (\<lambda>k.
                 ebind (row_item cols row ''frequency'') (\<lambda>fr.
                 Inr [\<lparr>atype = ''warning'',
                       title = ingredient @ '' - High Frequency'',
                       message = show_int k @ '' shipments '' @ py_str fr\<rparr>]))
            else Inr []) (\<lambda>warn.
     ebind (if py_in ''egg'' (lower ingredient)
            then ebind (row_item cols row ''Quantity per shipment'') (\<lambda>q.
                 ebind (row_item cols row ''Number of shipments'') (\<lambda>n2.
                 ebind (py_mul q n2) (\<lambda>prod.
                 ebind (py_int prod) (\<lambda>total.
                 ebind (row_item cols row ''Unit of shipment'') (\<lambda>unit.
                 ebind (row_item cols row ''frequency'') (\<lambda>fr.
                 Inr [\<lparr>atype = ''critical'',
                       title = ingredient @ '' - Critical Item'',
                       message = ''Requires '' @ show_int total @ '' '' @ py_str unit
                                   @ '' per '' @ py_str fr\<rparr>]))))))
            else Inr []) (\<lambda>crit.
     Inr (warn @ crit))))))"

text \<open>
  \<^verbatim>\<open>alerts()\<close>: every row is visited, also after three alerts are there, and the first
  three alerts are returned. \<^verbatim>\<open>None\<close> is the absent shipment table.
\<close>

definition alerts :: "frame option \<Rightarrow> error + alert list" where
  "alerts shipment_df =
     (case shipment_df of
        None \<Rightarrow> Inr []
      | Some df \<Rightarrow>
          ebind (emap (alerts_row (columns df)) (rows df)) (\<lambda>per_row.
          Inr (take 3 (concat per_row))))"

section \<open>Cost analysis\<close>

text \<open>
  The first key of a table, in its declared order, that occurs in a text; the fallback
  when none does.
\<close>

fun first_match :: "(string \<times> 'a) list \<Rightarrow> string \<Rightarrow> 'a \<Rightarrow> 'a" where
  "first_match [] s d = d"
| "first_match ((key, v) # kvs) s d = (if py_in key s then v else first_match kvs s d)"

definition costs :: "(string \<times> pyval) list" where
  "costs =
     [(''beef'', Num Native (I 8)), (''chicken'', Num Native (I 4)),
      (''egg'', Num Native (F (3 / 10))), (''rice'', Num Native (I 2)),
      (''ramen'', Num Native (F (3 / 2))), (''flour'', Num Native (F (1 / 2))),
      (''onion'', Num Native (F (1 / 10))), (''carrot'', Num Native (I 3))]"

record cost_entry =
  ingredient :: pyval
  details :: string
  cost :: string
  percentage :: int

text \<open>
  The weekly quantity of a row as \<^verbatim>\<open>cost_analysis\<close> computes it, with the tests on the
  frequency text in the order of the source.
\<close>

definition weekly_qty_of :: "string list \<Rightarrow> pyval list \<Rightarrow> error + pyval" where
  "weekly_qty_of cols row =
     ebind (row_item cols row ''Quantity per shipment'') (\<lambda>q.
     ebind (row_item cols row ''Number of shipments'') (\<lambda>n.
     ebind (py_mul q n) (\<lambda>qty.
     ebind (row_item cols row ''frequency'') (\<lambda>fr.
     let freq = lower (py_str fr) in
     if py_in ''weekly'' freq then Inr qty
     else if py_in ''biweekly'' freq then py_truediv qty 2
     else if py_in ''monthly'' freq then py_truediv qty 4
     else Inr qty))))"

text \<open>The value of the local \<^verbatim>\<open>weekly_cost\<close> of a row.\<close>

definition weekly_cost_of :: "string list \<Rightarrow> pyval list \<Rightarrow> error + pyval" where
  "weekly_cost_of cols row =
     ebind (row_item cols row ''Ingredient'') (\<lambda>ing.
     ebind (weekly_qty_of cols row) (\<lambda>weekly_qty.
     py_mul weekly_qty (first_match costs (lower (py_str ing)) (Num Native (I 3)))))"

text \<open>The body of the loop of \<^verbatim>\<open>cost_analysis\<close>: the entry of one row.\<close>

definition cost_row :: "string list \<Rightarrow> pyval list \<Rightarrow> error + cost_entry" where
  "cost_row cols row =
     ebind (row_item cols row ''Ingredient'') (\<lambda>ing.
     let cost_per_unit = first_match costs (lower (py_str ing)) (Num Native (I 3)) in
     ebind (weekly_qty_of cols row) (\<lambda>weekly_qty.
     ebind (py_mul weekly_qty cost_per_unit) (\<lambda>weekly_cost.
     ebind (row_item cols row ''Ingredient'') (\<lambda>name.
     ebind (py_int weekly_qty) (\<lambda>wq.
     ebind (row_item cols row ''Unit of shipment'') (\<lambda>unit.
     ebind (py_int weekly_cost) (\<lambda>wc.
     ebind (py_truediv weekly_cost 1500) (\<lambda>share.
     ebind (py_mul share (Num Native (I 100))) (\<lambda>pct.
     ebind (py_int pct) (\<lambda>p.
     Inr \<lparr>ingredient = name,
          details = show_int wq @ '' '' @ py_str unit @ ''/week @ $''
                      @ py_str cost_per_unit @ ''/'' @ py_str unit,
          cost = ''$'' @ show_int wc @ ''/wk'',
          percentage = min 100 p\<rparr>))))))))))"

text \<open>The sort key: the weekly cost read back from the formatted cost.\<close>

definition cost_sort_key :: "cost_entry \<Rightarrow> error + int" where
  "cost_sort_key x = py_int (Txt (replace ''/wk'' '''' (replace ''$'' '''' (cost x))))"

text \<open>
  \<^verbatim>\<open>list.sort(key=..., reverse=True)\<close> computes every key, then sorts stably in
  descending order of the keys.
\<close>

definition sort_desc :: "('a \<Rightarrow> error + int) \<Rightarrow> 'a list \<Rightarrow> error + 'a list" where
  "sort_desc key xs =
     ebind (emap key xs) (\<lambda>keys.
     Inr (map snd (sort_key (\<lambda>p. - fst p) (zip keys xs))))"

definition cost_analysis :: "frame option \<Rightarrow> error + cost_entry list" where
  "cost_analysis shipment_df =
     (case shipment_df of
        None \<Rightarrow> Inr []
      | Some df \<Rightarrow>
          ebind (emap (cost_row (columns df)) (rows df)) (\<lambda>analysis.
          ebind (sort_desc cost_sort_key analysis) (\<lambda>sorted_analysis.
          Inr (take 5 sorted_analysis))))"

section \<open>Shipment schedule\<close>

text \<open>The icons, as UTF-8 bytes.\<close>

definition emojis :: "(string \<times> string) list" where
  "emojis =
     [(''beef'', [CHR 0xF0, CHR 0x9F, CHR 0xA5, CHR 0xA9]),
      (''chicken'', [CHR 0xF0, CHR 0x9F, CHR 0x8D, CHR 0x97]),
      (''ramen'', [CHR 0xF0, CHR 0x9F, CHR 0x8D, CHR 0x9C]),
      (''egg'', [CHR 0xF0, CHR 0x9F, CHR 0xA5, CHR 0x9A]),
      (''rice'', [CHR 0xF0, CHR 0x9F, CHR 0x8C, CHR 0xBE]),
      (''onion'', [CHR 0xF0, CHR 0x9F, CHR 0xA7, CHR 0x85]),
      (''carrot'', [CHR 0xF0, CHR 0x9F, CHR 0xA5, CHR 0x95]),
      (''flour'', [CHR 0xF0, CHR 0x9F, CHR 0x8C, CHR 0xBE])]"

definition package_emoji :: string where
  "package_emoji = [CHR 0xF0, CHR 0x9F, CHR 0x93, CHR 0xA6]"

record schedule_entry =
  entry_ingredient :: string
  entry_frequency :: string
  nextDelivery :: string
  overdue :: bool

text \<open>
  The body of the loop of \<^verbatim>\<open>shipment_schedule\<close>. \<^verbatim>\<open>draw\<close> is what
  \<^verbatim>\<open>np.random.randint(1, 7)\<close> returns for this row.
\<close>

definition schedule_row :: "string list \<Rightarrow> pyval list \<Rightarrow> int \<Rightarrow> error + schedule_entry" where
  "schedule_row cols row draw =
     (let ingredient = py_str (safe_val (row_get cols row ''Ingredient'' (Txt ''Unknown'')) (Num Native (I 0)));
          emoji = first_match emojis (lower ingredient) package_emoji;
          frequency = safe_val (row_get cols row ''frequency'' (Txt ''unknown'')) (Num Native (I 0))
      in ebind (py_int (safe_val (row_get cols row ''Number of shipments'' (Num Native (I 0))) (Num Native (I 0))))
           (\<lambda>num_ship.
              Inr \<lparr>entry_ingredient = emoji @ '' '' @ ingredient,
                   entry_frequency = py_str frequency @ '' ('' @ show_int num_ship @ ''x)'',
                   nextDelivery = show_int draw @ '' days'',
                   overdue = False\<rparr>))"

text \<open>
  \<^verbatim>\<open>shipment_schedule()\<close>. The random generator is a parameter: \<^verbatim>\<open>draws i\<close> is the
  value of the \<^verbatim>\<open>i\<close>-th call of \<^verbatim>\<open>np.random.randint(1, 7)\<close>, one call per row. Whatever
  the loop raises is answered with the empty list.
\<close>

definition shipment_schedule :: "(nat \<Rightarrow> int) \<Rightarrow> frame option \<Rightarrow> schedule_entry list" where
  "shipment_schedule draws shipment_df =
     (case shipment_df of
        None \<Rightarrow> []
      | Some df \<Rightarrow>
          (case emap (\<lambda>(i, row). schedule_row (columns df) row (draws i)) (enumerate 0 (rows df)) of
             Inl e \<Rightarrow> []
           | Inr schedule \<Rightarrow> schedule))"

section \<open>Protein forecast\<close>

record protein_entry =
  amount :: string
  shipments :: string

fun efold :: "('a \<Rightarrow> 's \<Rightarrow> error + 's) \<Rightarrow> 'a list \<Rightarrow> 's \<Rightarrow> error + 's" where
  "efold f [] s = Inr s"
| "efold f (x # xs) s = ebind (f x s) (efold f xs)"

definition protein_amount :: "string list \<Rightarrow> pyval list \<Rightarrow> pyval \<Rightarrow> error + protein_entry" where
  "protein_amount cols row qty =
     ebind (py_int qty) (\<lambda>a.
     ebind (row_item cols row ''Unit of shipment'') (\<lambda>unit.
     ebind (row_item cols row ''Number of shipments'') (\<lambda>n.
     ebind (py_int n) (\<lambda>k.
     Inr \<lparr>amount = show_int a @ '' '' @ py_str unit,
          shipments = show_int k @ '' shipments''\<rparr>))))"

text \<open>
  The body of the loop of \<^verbatim>\<open>protein_forecast\<close>, on the dictionary built so far (kept
  in insertion order).
\<close>

definition protein_row ::
  "string list \<Rightarrow> pyval list \<Rightarrow> (string \<times> protein_entry) list \<Rightarrow> error + (string \<times> protein_entry) list" where
  "protein_row cols row proteins =
     ebind (row_item cols row ''Ingredient'') (\<lambda>ing.
     let ingredient = lower (py_str ing) in
     ebind (row_item cols row ''Quantity per shipment'') (\<lambda>q.
     ebind (row_item cols row ''Number of shipments'') (\<lambda>n.
     ebind (py_mul q n) (\<lambda>qty0.
     ebind (row_item cols row ''frequency'') (\<lambda>fr.
     let freq = lower (py_str fr) in
     ebind (if \<not> py_in ''weekly'' freq
            then (if py_in ''biweekly'' freq then py_truediv qty0 2 else py_truediv qty0 4)
            else Inr qty0) (\<lambda>qty.
     if py_in ''beef'' ingredient
     then ebind (protein_amount cols row qty) (\<lambda>e. Inr (AList.update ''beef'' e proteins))
     else if py_in ''chicken'' ingredient \<and> \<not> py_in ''wing'' ingredient
     then ebind (protein_amount cols row qty) (\<lambda>e. Inr (AList.update ''chicken'' e proteins))
     else Inr proteins))))))"

definition pork_placeholder :: protein_entry where
  "pork_placeholder = \<lparr>amount = ''40 lbs'', shipments = ''estimated''\<rparr>"

definition protein_forecast :: "frame option \<Rightarrow> error + (string \<times> protein_entry) list" where
  "protein_forecast shipment_df =
     (case shipment_df of
        None \<Rightarrow> Inr []
      | Some df \<Rightarrow>
          ebind (efold (protein_row (columns df)) (rows df) []) (\<lambda>proteins.
          Inr (if map_of proteins ''pork'' = None
               then AList.update ''pork'' pork_placeholder proteins
               else proteins)))"

section \<open>Ingredient matrix\<close>

record matrix_entry =
  menuItem :: pyval
  keyIngredients :: string
  protein :: string
  complexity :: string

definition clean :: "string \<Rightarrow> string" where
  "clean col = strip (replace ''(pcs)'' '''' (replace ''(count)'' '''' (replace ''(g)'' '''' col)))"

text \<open>
  The inner loop over the columns after the first: the cleaned names of the columns whose
  value is present, not zero and not the empty text.
\<close>

fun used_ingredients :: "string list \<Rightarrow> pyval list \<Rightarrow> string list \<Rightarrow> error + string list" where
  "used_ingredients cols row [] = Inr []"
| "used_ingredients cols row (col # rest) =
     ebind (row_item cols row col) (\<lambda>val.
     ebind (notna_truth val) (\<lambda>present.
     ebind (used_ingredients cols row rest) (\<lambda>more.
     Inr (if present \<and> ne_zero val \<and> ne_empty val then clean col # more else more))))"

fun protein_scan :: "string list \<Rightarrow> pyval list \<Rightarrow> string list \<Rightarrow> error + string" where
  "protein_scan cols row [] = Inr ''0''"
| "protein_scan cols row (col_name # rest) =
     (case map_of (zip cols row) col_name of
        None \<Rightarrow> protein_scan cols row rest
      | Some v \<Rightarrow>
          ebind (notna_truth v) (\<lambda>present.
          if present
          then ebind (py_gt v 0) (\<lambda>positive.
               if positive then ebind (py_int v) (\<lambda>k. Inr (show_int k))
               else protein_scan cols row rest)
          else protein_scan cols row rest))"

definition tier :: "nat \<Rightarrow> string" where
  "tier n = (if n \<le> 3 then ''Low'' else if n \<le> 6 then ''Medium'' else ''High'')"

definition matrix_row :: "string list \<Rightarrow> pyval list \<Rightarrow> error + matrix_entry" where
  "matrix_row cols row =
     ebind (used_ingredients cols row (tl cols)) (\<lambda>ingredients.
     ebind (protein_scan cols row [''braised beef used (g)'', ''Braised Chicken(g)'', ''Braised Pork(g)''])
       (\<lambda>protein_text.
     ebind (row_item cols row ''Item name'') (\<lambda>name.
     Inr \<lparr>menuItem = name,
          keyIngredients = join '', '' (take 4 ingredients),
          protein = protein_text,
          complexity = tier (length ingredients)\<rparr>)))"

definition ingredient_matrix :: "frame option \<Rightarrow> error + matrix_entry list" where
  "ingredient_matrix ingredient_df =
     (case ingredient_df of
        None \<Rightarrow> Inr []
      | Some df \<Rightarrow> emap (matrix_row (columns df)) (rows df))"

section \<open>Forecast\<close>

definition months :: "string list" where
  "months = [''May'', ''June'', ''July'', ''August'', ''September'', ''October'']"

definition available_months :: "(string \<times> frame) list \<Rightarrow> string list" where
  "available_months monthly_sales = filter (\<lambda>m. map_of monthly_sales m \<noteq> None) months"

text \<open>
  \<^verbatim>\<open>[len(monthly_sales[m]) for m in available]\<close>: the row counts of the months that are
  loaded, in the order of the calendar list.
\<close>

definition actual_counts :: "(string \<times> frame) list \<Rightarrow> int list" where
  "actual_counts monthly_sales =
     List.map_filter (\<lambda>m. map_option (\<lambda>df. int (len df)) (map_of monthly_sales m)) months"

text \<open>
  The least-squares line in exact arithmetic: its slope and its intercept, by the normal
  equations, and its value at a point. \<^verbatim>\<open>np.polyfit(x, y, 1)\<close> computes this line in
  double precision.
\<close>

definition polyfit1 :: "rat list \<Rightarrow> rat list \<Rightarrow> rat \<times> rat" where
  "polyfit1 xs ys =
     (let n = of_nat (length xs);
          sx = sum_list xs;
          sy = sum_list ys;
          sxx = sum_list (map (\<lambda>x. x * x) xs);
          sxy = sum_list (map (\<lambda>(x, y). x * y) (zip xs ys));
          a = (n * sxy - sx * sy) / (n * sxx - sx * sx)
      in (a, (sy - a * sx) / n))"

definition exact_line :: "rat list \<Rightarrow> rat list \<Rightarrow> rat \<Rightarrow> rat" where
  "exact_line xs ys t = (let (a, b) = polyfit1 xs ys in a * t + b)"

record forecast_result =
  labels :: "string list"
  actual :: "int option list"
  predicted :: "int option list"

text \<open>
  \<^verbatim>\<open>forecast()\<close>; the dictionary of the loaded months is an association list. The
  fitted polynomial is numpy's and is a parameter: \<^verbatim>\<open>p x y t\<close> stands for the double
  that \<^verbatim>\<open>np.poly1d(np.polyfit(x, y, 1))(t)\<close> evaluates to, which \<^verbatim>\<open>int\<close> then cuts
  toward zero.
\<close>

definition forecast ::
  "(rat list \<Rightarrow> rat list \<Rightarrow> rat \<Rightarrow> rat) \<Rightarrow> (string \<times> frame) list \<Rightarrow> forecast_result" where
  "forecast p monthly_sales =
     (if monthly_sales = [] then \<lparr>labels = [], actual = [], predicted = []\<rparr>
      else
        let available = available_months monthly_sales;
            act = actual_counts monthly_sales;
            k = length act;
            (f1, f2) =
              (if 2 \<le> k
               then (let x = map of_nat [0..<k];
                         y = map of_int act
                     in (trunc (p x y (of_nat k)), trunc (p x y (of_nat (k + 1)))))
               else (let f1 = (if act = [] then 500 else trunc (of_int (last act) * (21 / 20)))
                     in (f1, trunc (of_int f1 * (21 / 20)))))
        in \<lparr>labels = available @ [''Forecast 1'', ''Forecast 2''],
            actual = map Some act @ [None, None],
            predicted = replicate (k - 1) None
                          @ [Some (if act = [] then 500 else last act), Some f1, Some f2]\<rparr>)"

section \<open>Well-formed rows and the quantities the properties speak of\<close>

text \<open>
  A shipment row is in order when it has the five columns the operations read and its
  quantity and its number of shipments are numbers (not NaN, not a text).
\<close>

definition has_col :: "string list \<Rightarrow> pyval list \<Rightarrow> string \<Rightarrow> bool" where
  "has_col cols row name = (map_of (zip cols row) name \<noteq> None)"

fun is_number :: "pyval \<Rightarrow> bool" where
  "is_number (Num _ n) = (n \<noteq> NaN)"
| "is_number _ = False"

definition num_col :: "string list \<Rightarrow> pyval list \<Rightarrow> string \<Rightarrow> bool" where
  "num_col cols row name =
     (case map_of (zip cols row) name of Some v \<Rightarrow> is_number v | None \<Rightarrow> False)"

definition shipment_ok :: "string list \<Rightarrow> pyval list \<Rightarrow> bool" where
  "shipment_ok cols row =
     (has_col cols row ''Ingredient'' \<and> num_col cols row ''Quantity per shipment''
      \<and> num_col cols row ''Number of shipments'' \<and> has_col cols row ''frequency''
      \<and> has_col cols row ''Unit of shipment'')"

text \<open>The number of shipments of a row, and the text of its ingredient.\<close>

definition shipments_number :: "string list \<Rightarrow> pyval list \<Rightarrow> rat" where
  "shipments_number cols row =
     (case map_of (zip cols row) ''Number of shipments'' of
        Some (Num _ n) \<Rightarrow> (case num_rat n of Some x \<Rightarrow> x | None \<Rightarrow> 0)
      | _ \<Rightarrow> 0)"

definition ingredient_text :: "string list \<Rightarrow> pyval list \<Rightarrow> string" where
  "ingredient_text cols row =
     (case map_of (zip cols row) ''Ingredient'' of Some v \<Rightarrow> py_str v | None \<Rightarrow> [])"


text \<open>
  In the words of the specification: a column counts as a used ingredient when its value
  is present and is neither zero nor the empty text; the count runs over the columns
  after the first.
\<close>

definition used_column :: "string list \<Rightarrow> pyval list \<Rightarrow> string \<Rightarrow> bool" where
  "used_column cols row col =
     (case map_of (zip cols row) col of
        Some v \<Rightarrow> isna_truth v = Inr False \<and> ne_zero v \<and> ne_empty v
      | None \<Rightarrow> False)"

definition used_count :: "string list \<Rightarrow> pyval list \<Rightarrow> nat" where
  "used_count cols row = length (filter (used_column cols row) (tl cols))"

text \<open>
  A row of the ingredient table is in order when it has the item name, a cell that is
  not a list under every later column, and a number or nothing under the protein columns.
\<close>

fun plain_cell :: "pyval \<Rightarrow> bool" where
  "plain_cell (PyList xs) = False"
| "plain_cell v = True"

fun quantity_cell :: "pyval \<Rightarrow> bool" where
  "quantity_cell (Num k n) = True"
| "quantity_cell PyNone = True"
| "quantity_cell v = False"

definition matrix_ok :: "string list \<Rightarrow> pyval list \<Rightarrow> bool" where
  "matrix_ok cols row =
     (has_col cols row ''Item name''
      \<and> list_all (\<lambda>c. case map_of (zip cols row) c of Some v \<Rightarrow> plain_cell v | None \<Rightarrow> False) (tl cols)
      \<and> list_all (\<lambda>c. case map_of (zip cols row) c of Some v \<Rightarrow> quantity_cell v | None \<Rightarrow> True)
           [''braised beef used (g)'', ''Braised Chicken(g)'', ''Braised Pork(g)''])"

text \<open>
  The weekly cost of a row cut to an integer, which is what its formatted cost shows.
\<close>

definition int_weekly_cost :: "string list \<Rightarrow> pyval list \<Rightarrow> error + int" where
  "int_weekly_cost cols row = ebind (weekly_cost_of cols row) py_int"


subsection \<open>Sample tables\<close>

definition shipment_columns :: "string list" where
  "shipment_columns =
     [''Ingredient'', ''Quantity per shipment'', ''Unit of shipment'', ''Number of shipments'', ''frequency'']"

definition sample_shipments :: "pyval list list" where
  "sample_shipments =
     [[Txt ''Ramen'', Num Native (I 10), Txt ''cases'', Num Native (I 5), Txt ''weekly''],
      [Txt ''Rice'', Num Native (I 50), Txt ''lbs'', Num Native (I 4), Txt ''weekly''],
      [Txt ''Eggs'', Num Native (I 12), Txt ''dozen'', Num Native (I 6), Txt ''weekly''],
      [Txt ''Egg Noodles'', Num Native (I 3), Txt ''box'', Num Native (I 1), Txt ''monthly'']]"

text \<open>A shipment table whose one row has a blank quantity.\<close>

definition blank_quantity :: "pyval list list" where
  "blank_quantity =
     [[Txt ''Rice'', Num Native NaN, Txt ''lbs'', Num Native (I 5), Txt ''weekly'']]"

definition sample_proteins :: frame where
  "sample_proteins = \<lparr>columns = shipment_columns, rows =
     [[Txt ''Pork Belly'', Num Native (I 30), Txt ''lbs'', Num Native (I 2), Txt ''weekly''],
      [Txt ''Beef'', Num Native (I 20), Txt ''lbs'', Num Native (I 3), Txt ''monthly'']]\<rparr>"

definition sample_menu :: frame where
  "sample_menu =
     \<lparr>columns = [''Item name'', ''braised beef used (g)'', ''Braised Chicken(g)'', ''Egg(count)'',
                 ''Rice(g)'', ''Ramen (count)'', ''Green Onion'', ''Cilantro'', ''Peas(g)''],
      rows =
        [[Txt ''Beef Fried Rice'', Num Native (F 140), Num Native NaN, Num Native (F 1),
          Num Native (F 200), Num Native (F 0), Num Native NaN, Num Native NaN, Num Native NaN],
         [Txt ''Chicken Ramen'', Num Native NaN, Num Native (F 120), Num Native (F 1),
          Num Native (F 0), Num Native (F 1), Num Native (F 20), Num Native NaN, Num Native NaN],
         [Txt ''House Special'', Num Native (F 100), Num Native (F 100), Num Native (F 2),
          Num Native (F 0), Num Native (F 1), Num Native (F 20), Num Native (F 10), Num Native (F 30)]]\<rparr>"

definition sales_of :: "nat \<Rightarrow> frame" where
  "sales_of n = \<lparr>columns = [''Group''], rows = replicate n [Txt ''Ramen'']\<rparr>"

definition sample_costs :: frame where
  "sample_costs = \<lparr>columns = shipment_columns, rows =
     [[Txt ''Rice'', Num Native (I 50), Txt ''lbs'', Num Native (I 2), Txt ''weekly''],
      [Txt ''Braised Beef'', Num Native (I 40), Txt ''lbs'', Num Native (I 3), Txt ''weekly''],
      [Txt ''Green Onion'', Num Native (I 20), Txt ''lbs'', Num Native (I 2), Txt ''weekly''],
      [Txt ''Eggs'', Num Native (I 120), Txt ''eggs'', Num Native (I 4), Txt ''monthly''],
      [Txt ''Chicken'', Num Native (I 40), Txt ''lbs'', Num Native (I 2), Txt ''weekly''],
      [Txt ''Flour'', Num Native (I 50), Txt ''lbs'', Num Native (I 2), Txt ''monthly'']]\<rparr>"

definition sample_cost_drivers :: "cost_entry list" where
  "sample_cost_drivers =
     [\<lparr>ingredient = Txt ''Braised Beef'', details = ''120 lbs/week @ $8/lbs'', cost = ''$960/wk'', percentage = 64\<rparr>,
      \<lparr>ingredient = Txt ''Chicken'', details = ''80 lbs/week @ $4/lbs'', cost = ''$320/wk'', percentage = 21\<rparr>,
      \<lparr>ingredient = Txt ''Rice'', details = ''100 lbs/week @ $2/lbs'', cost = ''$200/wk'', percentage = 13\<rparr>,
      \<lparr>ingredient = Txt ''Eggs'', details = ''120 eggs/week @ $0.3/eggs'', cost = ''$36/wk'', percentage = 2\<rparr>,
      \<lparr>ingredient = Txt ''Flour'', details = ''25 lbs/week @ $0.5/lbs'', cost = ''$12/wk'', percentage = 0\<rparr>]"

definition sample_sales :: "(string \<times> frame) list" where
  "sample_sales = [(''May'', sales_of 10), (''June'', sales_of 20), (''July'', sales_of 30)]"

section \<open>Basic facts\<close>

lemma ebind_Inr_iff: "ebind m f = Inr y \<longleftrightarrow> (\<exists>x. m = Inr x \<and> f x = Inr y)"
  by (cases m) (simp_all add: ebind_def)

lemma ebind_Inr [simp]: "ebind (Inr x) f = f x"
  by (simp add: ebind_def)

lemma ebind_Inl [simp]: "ebind (Inl e) f = Inl e"
  by (simp add: ebind_def)

lemma emap_Inr_all2: "emap f xs = Inr ys \<Longrightarrow> list_all2 (\<lambda>x y. f x = Inr y) xs ys"
  by (induction xs arbitrary: ys) (auto simp: ebind_Inr_iff)

lemma emap_total: "list_all (\<lambda>x. \<exists>y. f x = Inr y) xs \<Longrightarrow> \<exists>ys. emap f xs = Inr ys"
  by (induction xs) auto

lemma has_col_item:
  "has_col cols row name \<Longrightarrow>
     \<exists>v. row_item cols row name = Inr v \<and> map_of (zip cols row) name = Some v"
  by (auto simp: has_col_def row_item_def)

lemma num_col_item:
  "num_col cols row name \<Longrightarrow>
     \<exists>k n. row_item cols row name = Inr (Num k n)
       \<and> map_of (zip cols row) name = Some (Num k n) \<and> n \<noteq> NaN"
  by (auto simp: num_col_def row_item_def split: option.splits elim: is_number.elims)

lemma num_mul_number: "a \<noteq> NaN \<Longrightarrow> b \<noteq> NaN \<Longrightarrow> num_mul a b \<noteq> NaN"
  by (cases a; cases b) (simp_all add: num_rat_def)

lemma num_div_number: "a \<noteq> NaN \<Longrightarrow> num_div a d \<noteq> NaN"
  by (cases a) (simp_all add: num_div_def num_rat_def)

lemma py_int_number: "n \<noteq> NaN \<Longrightarrow> \<exists>i. py_int (Num k n) = Inr i"
  by (cases n) simp_all

section \<open>Frequency normalisation\<close>

text \<open>
  The text \<^verbatim>\<open>'weekly'\<close> occurs in \<^verbatim>\<open>'biweekly'\<close>, so a frequency that contains
  \<^verbatim>\<open>'biweekly'\<close> is caught by the first test of the source and the branch that halves
  the quantity is never taken.
\<close>

lemma biweekly_contains_weekly: "py_in ''biweekly'' s \<Longrightarrow> py_in ''weekly'' s"
  unfolding py_in_def
proof -
  assume a: "sublist ''biweekly'' s"
  have "sublist ''weekly'' ''biweekly''" by code_simp
  then show "sublist ''weekly'' s" using a by (rule sublist_order.order.trans)
qed

lemma weekly_qty_of_never_halves:
  "weekly_qty_of cols row =
     ebind (row_item cols row ''Quantity per shipment'') (\<lambda>q.
     ebind (row_item cols row ''Number of shipments'') (\<lambda>n.
     ebind (py_mul q n) (\<lambda>qty.
     ebind (row_item cols row ''frequency'') (\<lambda>fr.
     let freq = lower (py_str fr) in
     if py_in ''weekly'' freq then Inr qty
     else if py_in ''monthly'' freq then py_truediv qty 4
     else Inr qty))))"
proof -
  have dead: "\<And>freq. \<not> py_in ''weekly'' freq \<Longrightarrow> \<not> py_in ''biweekly'' freq"
    using biweekly_contains_weekly by blast
  show ?thesis
    unfolding weekly_qty_of_def Let_def
    by (intro arg_cong2[where f = ebind] refl ext) (simp add: dead)
qed

text \<open>
  C1 (the code departs from the claim). The claim wants a frequency containing
  "biweekly" to give the factor 0.5. On a shipment of 10 lbs, 2 shipments, frequency
  "Biweekly", both \<^verbatim>\<open>weekly_calc\<close> and the weekly quantity of \<^verbatim>\<open>cost_analysis\<close> are
  20, the factor 1.0, where the claim asks for 10.
\<close>

theorem biweekly_counted_as_weekly:
  "weekly_calc shipment_columns
     [Txt ''Flour'', Num Native (I 10), Txt ''lbs'', Num Native (I 2), Txt ''Biweekly'']
   = Inr (Num Native (I 20))
   \<and> weekly_qty_of shipment_columns
     [Txt ''Flour'', Num Native (I 10), Txt ''lbs'', Num Native (I 2), Txt ''Biweekly'']
   = Inr (Num Native (I 20))"
  by code_simp

section \<open>Failures that reach the caller\<close>

text \<open>
  With the table absent every operation answers with its empty structure, and the
  shipment schedule, whose loop runs in a \<^verbatim>\<open>try\<close>, never raises at all.
\<close>

lemma absent_tables_give_defaults:
  "alerts None = Inr [] \<and> cost_analysis None = Inr [] \<and> protein_forecast None = Inr []
   \<and> ingredient_matrix None = Inr [] \<and> shipment_schedule d None = []
   \<and> forecast p [] = \<lparr>labels = [], actual = [], predicted = []\<rparr>"
  by (simp add: alerts_def cost_analysis_def protein_forecast_def ingredient_matrix_def
      shipment_schedule_def forecast_def)

text \<open>
  C2 (the code departs from the claim). The claim wants every operation to answer with
  its default structure on a table with missing columns or missing values. On a shipment
  table whose only row is Eggs with a missing quantity, \<^verbatim>\<open>alerts\<close> and
  \<^verbatim>\<open>cost_analysis\<close> raise \<^verbatim>\<open>ValueError\<close> (the integer of NaN); on a table without the
  Ingredient column \<^verbatim>\<open>alerts\<close> raises \<^verbatim>\<open>KeyError\<close>.
\<close>

theorem alerts_and_cost_analysis_raise:
  "alerts (Some \<lparr>columns = shipment_columns,
                  rows = [[Txt ''Eggs'', Num Native NaN, Txt ''dozen'', Num Native (I 2), Txt ''weekly'']]\<rparr>)
   = Inl ValueError
   \<and> cost_analysis (Some \<lparr>columns = shipment_columns,
                  rows = [[Txt ''Eggs'', Num Native NaN, Txt ''dozen'', Num Native (I 2), Txt ''weekly'']]\<rparr>)
   = Inl ValueError
   \<and> alerts (Some \<lparr>columns = [''Quantity per shipment'', ''Number of shipments''],
                  rows = [[Num Native (I 3), Num Native (I 2)]]\<rparr>)
   = Inl KeyError"
  by code_simp

section \<open>Cost drivers\<close>

subsection \<open>Reading the formatted cost back\<close>

lemma digit_char_is_digit: "d < 10 \<Longrightarrow> is_digit (digit_char d)"
  by (simp add: is_digit_def digit_char_def)

lemma digit_val_digit_char: "d < 10 \<Longrightarrow> digit_val (digit_char d) = int d"
  by (simp add: digit_val_def digit_char_def)

lemma show_nat_digits: "list_all is_digit (show_nat n)"
proof (induction n rule: show_nat.induct)
  case (1 n)
  show ?case
  proof (cases "n < 10")
    case True
    then show ?thesis by (subst show_nat.simps) (simp add: digit_char_is_digit)
  next
    case False
    then show ?thesis using 1 by (subst show_nat.simps) (simp add: digit_char_is_digit)
  qed
qed

lemma show_nat_nonempty: "show_nat n \<noteq> []"
  by (subst show_nat.simps) simp

lemma foldl_show_nat: "foldl (\<lambda>a c. 10 * a + digit_val c) 0 (show_nat n) = int n"
proof (induction n rule: show_nat.induct)
  case (1 n)
  show ?case
  proof (cases "n < 10")
    case True
    then show ?thesis by (subst show_nat.simps) (simp add: digit_val_digit_char)
  next
    case False
    then have "foldl (\<lambda>a c. 10 * a + digit_val c) 0 (show_nat (n div 10)) = int (n div 10)"
      using 1 by simp
    then show ?thesis using False
      by (subst show_nat.simps) (simp add: digit_val_digit_char zdiv_int zmod_int)
  qed
qed

lemma underscore_no_digit: "\<not> is_digit (CHR ''_'')"
  by code_simp

lemma digits_no_double_underscore: "list_all is_digit ds \<Longrightarrow> no_double_underscore ds"
proof (induction ds rule: no_double_underscore.induct)
  case (1 a b cs)
  then show ?case using underscore_no_digit by auto
qed simp_all

lemma parse_digits_show_nat: "parse_digits (show_nat n) = Some (int n)"
proof -
  have d: "list_all is_digit (show_nat n)" by (rule show_nat_digits)
  have ne: "show_nat n \<noteq> []" by (rule show_nat_nonempty)
  have h: "is_digit (hd (show_nat n))" using d ne by (cases "show_nat n") simp_all
  have l: "is_digit (last (show_nat n))" using d ne by (simp add: list_all_iff)
  have f: "filter is_digit (show_nat n) = show_nat n" using d by (simp add: list_all_iff)
  have a: "list_all (\<lambda>c. is_digit c \<or> c = CHR ''_'') (show_nat n)" using d by (simp add: list_all_iff)
  show ?thesis
    unfolding parse_digits_def
    using ne h l a digits_no_double_underscore[OF d] by (simp add: f foldl_show_nat)
qed

lemma digit_not_space: "is_digit c \<Longrightarrow> \<not> is_literal_space c"
  by (auto simp: is_literal_space_def is_digit_def)

lemma strip_literal_id: "s \<noteq> [] \<Longrightarrow> \<not> is_literal_space (hd s) \<Longrightarrow> \<not> is_literal_space (last s) \<Longrightarrow> strip_literal s = s"
proof -
  assume ne: "s \<noteq> []" and h: "\<not> is_literal_space (hd s)" and l: "\<not> is_literal_space (last s)"
  have a: "dropWhile is_literal_space s = s" using ne h by (cases s) simp_all
  have r: "rev s = last s # rev (butlast s)" using ne by (cases s rule: rev_cases) simp_all
  have b: "dropWhile is_literal_space (rev s) = rev s" unfolding r using l by simp
  show ?thesis by (simp add: strip_literal_def a b)
qed

lemma minus_not_space: "\<not> is_literal_space (CHR ''-'')"
  by code_simp

lemma digit_not_sign: "is_digit c \<Longrightarrow> c \<noteq> CHR ''-'' \<and> c \<noteq> CHR ''+''"
  by (auto simp: is_digit_def)

lemma parse_int_show_int: "parse_int (show_int t) = Some t"
proof (cases "t < 0")
  case True
  let ?ds = "show_nat (nat (- t))"
  have d: "list_all is_digit ?ds" by (rule show_nat_digits)
  have ne: "?ds \<noteq> []" by (rule show_nat_nonempty)
  have l: "\<not> is_literal_space (last (CHR ''-'' # ?ds))"
    using d ne digit_not_space by (simp add: list_all_iff)
  have s: "strip_literal (CHR ''-'' # ?ds) = CHR ''-'' # ?ds"
    by (rule strip_literal_id) (simp_all add: minus_not_space l del: last.simps)
  show ?thesis using True
    by (simp add: parse_int_def show_int_def s parse_digits_show_nat)
next
  case False
  let ?ds = "show_nat (nat t)"
  have d: "list_all is_digit ?ds" by (rule show_nat_digits)
  have ne: "?ds \<noteq> []" by (rule show_nat_nonempty)
  then obtain c cs where cs: "?ds = c # cs" by (cases ?ds) auto
  have c: "is_digit c" using d cs by simp
  have l: "is_digit (last ?ds)" using d ne by (simp add: list_all_iff)
  have s: "strip_literal ?ds = ?ds"
    using ne c l digit_not_space cs by (intro strip_literal_id) auto
  have s': "strip_literal (c # cs) = c # cs" using s cs by simp
  have "parse_int (c # cs) = parse_digits (c # cs)"
    using digit_not_sign[OF c] by (simp add: parse_int_def s')
  then have "parse_int ?ds = parse_digits ?ds" using cs by simp
  then show ?thesis using False by (simp add: show_int_def parse_digits_show_nat)
qed

lemma replace_fuel_Nil [simp]: "replace_fuel k old new [] = []"
  by (cases k) simp_all

lemma replace_fuel_absent:
  "list_all (\<lambda>c. c \<noteq> h) s \<Longrightarrow> replace_fuel k (h # old') new s = s"
proof (induction k arbitrary: s)
  case 0
  show ?case by simp
next
  case (Suc k)
  then show ?case by (cases s) auto
qed

lemma replace_fuel_suffix:
  "list_all (\<lambda>c. c \<noteq> h) s \<Longrightarrow> length s < k \<Longrightarrow>
     replace_fuel k (h # old') [] (s @ h # old') = s"
proof (induction s arbitrary: k)
  case Nil
  then obtain k' where "k = Suc k'" by (cases k) auto
  then show ?case by simp
next
  case (Cons c cs)
  then obtain k' where k: "k = Suc k'" by (cases k) auto
  with Cons show ?case by auto
qed

lemma show_int_chars: "list_all (\<lambda>c. is_digit c \<or> c = CHR ''-'') (show_int t)"
  using show_nat_digits by (auto simp: show_int_def list_all_iff)

lemma dollar_slash_no_digit: "\<not> is_digit (CHR ''$'') \<and> \<not> is_digit (CHR ''/'')"
  by code_simp

lemma cost_text_roundtrip:
  "replace ''/wk'' '''' (replace ''$'' '''' (''$'' @ show_int t @ ''/wk'')) = show_int t"
proof -
  have nd: "list_all (\<lambda>c. c \<noteq> CHR ''$'') (show_int t @ ''/wk'')"
    using show_int_chars[of t] dollar_slash_no_digit by (auto simp: list_all_iff)
  have ns: "list_all (\<lambda>c. c \<noteq> CHR ''/'') (show_int t)"
    using show_int_chars[of t] dollar_slash_no_digit by (auto simp: list_all_iff)
  have a: "replace ''$'' '''' (''$'' @ show_int t @ ''/wk'') = show_int t @ ''/wk''"
    using replace_fuel_absent[OF nd, of _ "[]" "[]"] by (simp add: replace_def)
  have b: "replace ''/wk'' '''' (show_int t @ ''/wk'') = show_int t"
    using replace_fuel_suffix[OF ns, of "length (show_int t @ ''/wk'')" "''wk''"]
    by (simp add: replace_def)
  show ?thesis by (simp only: a b)
qed

lemma cost_row_key:
  assumes "cost_row cols row = Inr e"
  shows "\<exists>t. int_weekly_cost cols row = Inr t \<and> cost_sort_key e = Inr t"
proof -
  from assms obtain ing weekly_qty weekly_cost wc where
    ing: "row_item cols row ''Ingredient'' = Inr ing"
    and wq: "weekly_qty_of cols row = Inr weekly_qty"
    and wcost: "py_mul weekly_qty (first_match costs (lower (py_str ing)) (Num Native (I 3))) = Inr weekly_cost"
    and wc: "py_int weekly_cost = Inr wc"
    and c: "cost e = ''$'' @ show_int wc @ ''/wk''"
    unfolding cost_row_def Let_def ebind_Inr_iff by force
  have "int_weekly_cost cols row = Inr wc"
    by (simp add: int_weekly_cost_def weekly_cost_of_def ing wq wcost wc)
  moreover have "cost_sort_key e = Inr wc"
    unfolding cost_sort_key_def c cost_text_roundtrip by (simp add: parse_int_show_int)
  ultimately show ?thesis by blast
qed


lemma emap_cost_keys:
  "emap (cost_row cols) rs = Inr analysis \<Longrightarrow>
     \<exists>ts. emap (int_weekly_cost cols) rs = Inr ts \<and> emap cost_sort_key analysis = Inr ts"
proof (induction rs arbitrary: analysis)
  case Nil
  then show ?case by simp
next
  case (Cons r rs)
  from Cons.prems obtain e es where e: "cost_row cols r = Inr e"
    and es: "emap (cost_row cols) rs = Inr es" and a: "analysis = e # es"
    by (auto simp: ebind_Inr_iff)
  from cost_row_key[OF e] obtain t where t: "int_weekly_cost cols r = Inr t" "cost_sort_key e = Inr t"
    by blast
  from Cons.IH[OF es] obtain ts where ts: "emap (int_weekly_cost cols) rs = Inr ts"
    "emap cost_sort_key es = Inr ts" by blast
  show ?case by (simp add: a t ts)
qed

lemma descending_of_sorted_negated:
  "sorted (map (\<lambda>p. - fst p) (xs :: (int \<times> 'a) list)) \<Longrightarrow> sorted_wrt (\<lambda>a b. b \<le> a) (map fst xs)"
  by (simp add: sorted_wrt_map)

lemma unit_cost_number:
  "\<exists>c. first_match costs s (Num Native (I 3)) = Num Native c \<and> c \<noteq> NaN"
  by (simp add: costs_def)

lemma weekly_qty_ok:
  assumes "shipment_ok cols row"
  shows "\<exists>k m. weekly_qty_of cols row = Inr (Num k m) \<and> m \<noteq> NaN"
proof -
  from assms obtain fr where fr: "row_item cols row ''frequency'' = Inr fr"
    using has_col_item unfolding shipment_ok_def by blast
  from assms obtain kq q where q: "row_item cols row ''Quantity per shipment'' = Inr (Num kq q)" "q \<noteq> NaN"
    using num_col_item unfolding shipment_ok_def by blast
  from assms obtain kn n where n: "row_item cols row ''Number of shipments'' = Inr (Num kn n)" "n \<noteq> NaN"
    using num_col_item unfolding shipment_ok_def by blast
  have pn: "num_mul q n \<noteq> NaN" using num_mul_number[OF q(2) n(2)] .
  show ?thesis
    unfolding weekly_qty_of_def
    using pn num_div_number[OF pn] by (simp add: fr q n Let_def)
qed

lemma cost_row_ok:
  assumes "shipment_ok cols row"
  shows "\<exists>e. cost_row cols row = Inr e"
proof -
  from assms obtain ing where ing: "row_item cols row ''Ingredient'' = Inr ing"
    using has_col_item unfolding shipment_ok_def by blast
  from assms obtain u where u: "row_item cols row ''Unit of shipment'' = Inr u"
    using has_col_item unfolding shipment_ok_def by blast
  from weekly_qty_ok[OF assms] obtain k m where wq: "weekly_qty_of cols row = Inr (Num k m)" "m \<noteq> NaN"
    by blast
  from unit_cost_number obtain c where c: "first_match costs (lower (py_str ing)) (Num Native (I 3)) = Num Native c" "c \<noteq> NaN"
    by blast
  have wc: "num_mul m c \<noteq> NaN" using num_mul_number[OF wq(2) c(2)] .
  have sh: "num_div (num_mul m c) 1500 \<noteq> NaN" using num_div_number[OF wc] .
  have pc: "num_mul (num_div (num_mul m c) 1500) (I 100) \<noteq> NaN" using num_mul_number[OF sh] by simp
  obtain i1 where i1: "py_int (Num k m) = Inr i1" using py_int_number[OF wq(2)] by blast
  obtain i2 where i2: "py_int (Num (mix k Native) (num_mul m c)) = Inr i2" using py_int_number[OF wc] by blast
  obtain i3 where i3: "py_int (Num (mix (mix k Native) Native) (num_mul (num_div (num_mul m c) 1500) (I 100))) = Inr i3"
    using py_int_number[OF pc] by blast
  show ?thesis
    unfolding cost_row_def
    by (simp add: ing u wq c i1 i2 i3 Let_def)
qed

text \<open>
  C4 (the claim as stated fails). Rice A costs 1.0 a week and Rice B 1.5; both are
  formatted "$1/wk", the sort keeps them in the order of the rows, and the entry of the
  smaller true cost comes first.
\<close>

theorem cost_order_ignores_fractions:
  "cost_analysis (Some \<lparr>columns = shipment_columns, rows =
       [[Txt ''Rice A'', Num Native (I 2), Txt ''lbs'', Num Native (I 1), Txt ''monthly''],
        [Txt ''Rice B'', Num Native (I 3), Txt ''lbs'', Num Native (I 1), Txt ''monthly'']]\<rparr>)
     = Inr [\<lparr>ingredient = Txt ''Rice A'', details = ''0 lbs/week @ $2/lbs'', cost = ''$1/wk'', percentage = 0\<rparr>,
            \<lparr>ingredient = Txt ''Rice B'', details = ''0 lbs/week @ $2/lbs'', cost = ''$1/wk'', percentage = 0\<rparr>]
   \<and> weekly_cost_of shipment_columns
        [Txt ''Rice A'', Num Native (I 2), Txt ''lbs'', Num Native (I 1), Txt ''monthly'']
       = Inr (Num Native (F 1))
   \<and> weekly_cost_of shipment_columns
        [Txt ''Rice B'', Num Native (I 3), Txt ''lbs'', Num Native (I 1), Txt ''monthly'']
       = Inr (Num Native (F (3 / 2)))
   \<and> (1 :: rat) < 3 / 2"
  by code_simp

text \<open>
  C4 (amended). Whenever \<^verbatim>\<open>cost_analysis\<close> returns, the list has at most 5 entries: the
  first five of the entries of the rows, sorted stably in descending order of the weekly
  cost cut to an integer, which is the number the formatted cost shows and the sort key
  reads back. Entries whose formatted costs coincide keep the order of their rows. On a
  table whose rows are in order it does return.
\<close>

theorem top_cost_drivers_sorted_by_shown_cost:
  "(\<forall>out. cost_analysis (Some df) = Inr out \<longrightarrow>
      length out \<le> 5
      \<and> (\<exists>analysis ts.
            emap (cost_row (columns df)) (rows df) = Inr analysis
            \<and> emap (int_weekly_cost (columns df)) (rows df) = Inr ts
            \<and> out = map snd (take 5 (sort_key (\<lambda>p. - fst p) (zip ts analysis)))
            \<and> sorted_wrt (\<lambda>a b. b \<le> a) (map fst (take 5 (sort_key (\<lambda>p. - fst p) (zip ts analysis))))))
   \<and> (list_all (shipment_ok (columns df)) (rows df) \<longrightarrow> (\<exists>out. cost_analysis (Some df) = Inr out))"
proof (intro conjI allI impI)
  fix out assume ret: "cost_analysis (Some df) = Inr out"
  then obtain analysis keys where an: "emap (cost_row (columns df)) (rows df) = Inr analysis"
    and ks: "emap cost_sort_key analysis = Inr keys"
    and out: "out = take 5 (map snd (sort_key (\<lambda>p. - fst p) (zip keys analysis)))"
    by (auto simp: cost_analysis_def sort_desc_def ebind_Inr_iff)
  from emap_cost_keys[OF an] ks have ts: "emap (int_weekly_cost (columns df)) (rows df) = Inr keys"
    by auto
  show "length out \<le> 5" by (simp add: out)
  have "sorted (map (\<lambda>p. - fst p) (sort_key (\<lambda>p. - fst p) (zip keys analysis)))"
    by (rule sorted_sort_key)
  then have "sorted (take 5 (map (\<lambda>p. - fst p) (sort_key (\<lambda>p. - fst p) (zip keys analysis))))"
    by (rule sorted_wrt_take)
  then have "sorted (map (\<lambda>p. - fst p) (take 5 (sort_key (\<lambda>p. - fst p) (zip keys analysis))))"
    by (simp add: take_map)
  then have desc: "sorted_wrt (\<lambda>a b. b \<le> a) (map fst (take 5 (sort_key (\<lambda>p. - fst p) (zip keys analysis))))"
    by (rule descending_of_sorted_negated)
  show "\<exists>analysis ts.
            emap (cost_row (columns df)) (rows df) = Inr analysis
            \<and> emap (int_weekly_cost (columns df)) (rows df) = Inr ts
            \<and> out = map snd (take 5 (sort_key (\<lambda>p. - fst p) (zip ts analysis)))
            \<and> sorted_wrt (\<lambda>a b. b \<le> a) (map fst (take 5 (sort_key (\<lambda>p. - fst p) (zip ts analysis))))"
    using an ts out desc by (intro exI[of _ analysis] exI[of _ keys]) (simp add: take_map)
next
  assume ok: "list_all (shipment_ok (columns df)) (rows df)"
  have "list_all (\<lambda>r. \<exists>e. cost_row (columns df) r = Inr e) (rows df)"
    unfolding list_all_iff
  proof
    fix r assume "r \<in> set (rows df)"
    then have "shipment_ok (columns df) r" using ok by (simp add: list_all_iff)
    then show "\<exists>e. cost_row (columns df) r = Inr e" by (rule cost_row_ok)
  qed
  from emap_total[OF this] obtain analysis where an: "emap (cost_row (columns df)) (rows df) = Inr analysis"
    by blast
  from emap_cost_keys[OF an] obtain ts where "emap cost_sort_key analysis = Inr ts" by blast
  then show "\<exists>out. cost_analysis (Some df) = Inr out"
    by (simp add: cost_analysis_def sort_desc_def an)
qed

theorem top_cost_drivers_witness:
  "list_all (shipment_ok (columns sample_costs)) (rows sample_costs)
   \<and> cost_analysis (Some sample_costs) = Inr sample_cost_drivers
   \<and> length sample_cost_drivers \<le> 5
   \<and> (\<exists>analysis ts.
            emap (cost_row (columns sample_costs)) (rows sample_costs) = Inr analysis
            \<and> emap (int_weekly_cost (columns sample_costs)) (rows sample_costs) = Inr ts
            \<and> sample_cost_drivers = map snd (take 5 (sort_key (\<lambda>p. - fst p) (zip ts analysis)))
            \<and> sorted_wrt (\<lambda>a b. b \<le> a) (map fst (take 5 (sort_key (\<lambda>p. - fst p) (zip ts analysis)))))
   \<and> (\<exists>out. cost_analysis (Some sample_costs) = Inr out)"
proof -
  have ok: "list_all (shipment_ok (columns sample_costs)) (rows sample_costs)" by code_simp
  have ev: "cost_analysis (Some sample_costs) = Inr sample_cost_drivers" by code_simp
  note a = top_cost_drivers_sorted_by_shown_cost[of sample_costs, THEN conjunct1, rule_format, OF ev]
  note b = top_cost_drivers_sorted_by_shown_cost[of sample_costs, THEN conjunct2, THEN mp, OF ok]
  show ?thesis
    by (intro conjI) (rule ok ev b a[THEN conjunct1] a[THEN conjunct2])+
qed

section \<open>Determinism\<close>













section \<open>Forecast without a trend\<close>

lemma trunc_scale: "0 \<le> n \<Longrightarrow> trunc (of_int n * (21 / 20)) = 21 * n div 20"
proof -
  assume n: "0 \<le> n"
  have eq: "(of_int n :: rat) * (21 / 20) = of_int (21 * n) / of_int 20" by simp
  have nonneg: "(0::rat) \<le> of_int n * (21 / 20)" using n by simp
  have "\<lfloor>(of_int (21 * n) :: rat) / of_int 20\<rfloor> = 21 * n div 20"
    by (rule floor_divide_of_int_eq)
  then show ?thesis using nonneg unfolding trunc_def eq by simp
qed

lemma actual_counts_nonneg: "n \<in> set (actual_counts ms) \<Longrightarrow> 0 \<le> n"
  by (auto simp: actual_counts_def List.map_filter_def)

lemma actual_counts_Nil [simp]: "actual_counts [] = []"
  by (simp add: actual_counts_def List.map_filter_def months_def)

lemma forecast_without_fit:
  "length (actual_counts ms) < 2 \<Longrightarrow> forecast p ms = forecast q ms"
  by (simp add: forecast_def Let_def)

text \<open>
  C5 (the claim as stated fails). With the single period May of 200 rows the forecast is
  210 and then 220: \<^verbatim>\<open>int(210 * 1.05)\<close> cuts 220.5 down to 220, where the claim says 221.
  With no period loaded at all the predicted series is empty: there is no forecast of 500.
  The fitted polynomial plays no part with fewer than two periods.
\<close>

theorem forecast_one_period_of_200:
  "\<forall>p. predicted (forecast p [(''May'', sales_of 200)]) = [Some 200, Some 210, Some 220]
       \<and> last (predicted (forecast p [(''May'', sales_of 200)])) \<noteq> Some 221
       \<and> predicted (forecast p []) = []"
proof
  fix p :: "rat list \<Rightarrow> rat list \<Rightarrow> rat \<Rightarrow> rat"
  have short: "length (actual_counts [(''May'', sales_of 200)]) < 2" by code_simp
  have one: "predicted (forecast exact_line [(''May'', sales_of 200)]) = [Some 200, Some 210, Some 220]"
    by code_simp
  have none: "predicted (forecast p []) = []" by (simp add: forecast_def)
  from one forecast_without_fit[OF short, of p exact_line] none
  show "predicted (forecast p [(''May'', sales_of 200)]) = [Some 200, Some 210, Some 220]
       \<and> last (predicted (forecast p [(''May'', sales_of 200)])) \<noteq> Some 221
       \<and> predicted (forecast p []) = []"
    by simp
qed

text \<open>
  C5 (amended). With no sales table at all the forecast is the empty structure. With
  tables loaded but none of them for a month of the calendar list, the predicted series is
  500, 500, 525. With exactly one month of the list loaded, of \<open>n\<close> rows, the predicted
  series is \<open>n\<close>, then \<open>n \<times> 1.05\<close> cut to an integer, then that forecast times 1.05 cut to
  an integer: \<open>21 n div 20\<close> and \<open>21 (21 n div 20) div 20\<close>. This holds whatever the
  fitted polynomial \<open>p\<close> is.
\<close>

theorem forecast_fallback_truncates:
  "forecast p [] = \<lparr>labels = [], actual = [], predicted = []\<rparr>
   \<and> (ms \<noteq> [] \<and> actual_counts ms = [] \<longrightarrow>
        predicted (forecast p ms) = [Some 500, Some 500, Some 525])
   \<and> (actual_counts ms = [n] \<longrightarrow>
        predicted (forecast p ms) = [Some n, Some (21 * n div 20), Some (21 * (21 * n div 20) div 20)])"
proof (intro conjI impI)
  show "forecast p [] = \<lparr>labels = [], actual = [], predicted = []\<rparr>"
    by (simp add: forecast_def)
next
  assume "ms \<noteq> [] \<and> actual_counts ms = []"
  then show "predicted (forecast p ms) = [Some 500, Some 500, Some 525]"
    by (simp add: forecast_def Let_def trunc_def)
next
  assume a: "actual_counts ms = [n]"
  then have ne: "ms \<noteq> []" by auto
  have n0: "0 \<le> n" using a actual_counts_nonneg[of n ms] by simp
  then have n1: "0 \<le> 21 * n div 20" by simp
  show "predicted (forecast p ms) = [Some n, Some (21 * n div 20), Some (21 * (21 * n div 20) div 20)]"
    using ne a trunc_scale[OF n0] trunc_scale[OF n1]
    by (simp add: forecast_def Let_def)
qed

theorem forecast_fallback_witness:
  "actual_counts [(''May'', sales_of 200)] = [200]
   \<and> predicted (forecast exact_line [(''May'', sales_of 200)]) = [Some 200, Some 210, Some 220]
   \<and> [(''Mai'', sales_of 1)] \<noteq> []
   \<and> actual_counts [(''Mai'', sales_of 1)] = []
   \<and> predicted (forecast exact_line [(''Mai'', sales_of 1)]) = [Some 500, Some 500, Some 525]"
proof -
  have a: "actual_counts [(''May'', sales_of 200)] = [200]"
    by code_simp
  have b: "actual_counts [(''Mai'', sales_of 1)] = []"
    by code_simp
  show ?thesis
    using a b
      forecast_fallback_truncates[of exact_line "[(''May'', sales_of 200)]" 200]
      forecast_fallback_truncates[of exact_line "[(''Mai'', sales_of 1)]" 0]
    by simp
qed

section \<open>Forecast along the trend\<close>









subsection \<open>Cutting toward zero\<close>


lemma trunc_between:
  "\<bar>v - of_int n\<bar> < 1 \<Longrightarrow> 1 \<le> n \<Longrightarrow> trunc v = n - 1 \<or> trunc v = n"
proof -
  assume near: "\<bar>v - of_int n\<bar> < 1" and n: "1 \<le> n"
  have lo: "of_int (n - 1) < v" and hi: "v < of_int (n + 1)" using near by auto
  have "(0::rat) \<le> of_int (n - 1)" using n by simp
  then have v0: "0 \<le> v" using lo by simp
  have a: "n - 1 \<le> \<lfloor>v\<rfloor>" using lo by (simp add: le_floor_iff)
  have b: "\<lfloor>v\<rfloor> < n + 1" using hi unfolding floor_less_iff .
  from a b have "\<lfloor>v\<rfloor> = n - 1 \<or> \<lfloor>v\<rfloor> = n" by arith
  then show ?thesis using v0 by (simp add: trunc_def)
qed


subsection \<open>The two forecasts\<close>

lemma forecast_trend_predicted:
  assumes k: "2 \<le> length (actual_counts ms)"
  shows "predicted (forecast p ms) =
           replicate (length (actual_counts ms) - 1) None
           @ [Some (last (actual_counts ms)),
              Some (trunc (p (map of_nat [0..<length (actual_counts ms)]) (map of_int (actual_counts ms))
                             (of_nat (length (actual_counts ms))))),
              Some (trunc (p (map of_nat [0..<length (actual_counts ms)]) (map of_int (actual_counts ms))
                             (of_nat (length (actual_counts ms) + 1))))]"
proof -
  have ne: "ms \<noteq> []" using k by auto
  have ane: "actual_counts ms \<noteq> []" using k by auto
  show ?thesis using ne ane k by (simp add: forecast_def Let_def)
qed

lemma sample_sales_points:
  "actual_counts sample_sales = [10, 20, 30]
   \<and> map of_nat [0..<length (actual_counts sample_sales)] = ([0, 1, 2] :: rat list)
   \<and> map of_int (actual_counts sample_sales) = ([10, 20, 30] :: rat list)"
  by code_simp

text \<open>
  On the periods of 10, 20 and 30 rows the exact line runs through 40 and 50. A fitted
  polynomial within less than 1 of it gives 40 or 39, and 50 or 49: which of the two, the
  side on which the double falls decides.
\<close>

lemma forecast_of_10_20_30:
  assumes p3: "\<bar>p [0, 1, 2] [10, 20, 30] 3 - 40\<bar> < 1"
    and p4: "\<bar>p [0, 1, 2] [10, 20, 30] 4 - 50\<bar> < 1"
  shows "\<exists>f1 f2. predicted (forecast p sample_sales) = [None, None, Some 30, Some f1, Some f2]
           \<and> (f1 = 39 \<or> f1 = 40) \<and> (f2 = 49 \<or> f2 = 50)"
proof -
  have k: "2 \<le> length (actual_counts sample_sales)" by code_simp
  have pred: "predicted (forecast p sample_sales) =
      [None, None, Some 30, Some (trunc (p [0, 1, 2] [10, 20, 30] 3)), Some (trunc (p [0, 1, 2] [10, 20, 30] 4))]"
    using forecast_trend_predicted[OF k, of p] sample_sales_points by simp
  have f1: "trunc (p [0, 1, 2] [10, 20, 30] 3) = 40 - 1 \<or> trunc (p [0, 1, 2] [10, 20, 30] 3) = 40"
    using trunc_between[of "p [0, 1, 2] [10, 20, 30] 3" 40] p3 by simp
  have f2: "trunc (p [0, 1, 2] [10, 20, 30] 4) = 50 - 1 \<or> trunc (p [0, 1, 2] [10, 20, 30] 4) = 50"
    using trunc_between[of "p [0, 1, 2] [10, 20, 30] 4" 50] p4 by simp
  from pred f1 f2 show ?thesis by auto
qed

text \<open>
  A fitted polynomial that falls short of the exact line by as little as \<open>1 / 2 ^ 46\<close> gives
  39 and 49 on these periods, and 29 and 39 on the two periods of 10 and 20 rows, where
  the exact line gives 30 and 40.
\<close>

lemma forecast_just_below_the_line:
  "predicted (forecast (\<lambda>x y t. exact_line x y t - 1 / 2 ^ 46) sample_sales)
     = [None, None, Some 30, Some 39, Some 49]
   \<and> predicted (forecast (\<lambda>x y t. exact_line x y t - 1 / 2 ^ 46)
        [(''May'', sales_of 10), (''June'', sales_of 20)])
     = [None, Some 20, Some 29, Some 39]
   \<and> predicted (forecast exact_line [(''May'', sales_of 10), (''June'', sales_of 20)])
     = [None, Some 20, Some 30, Some 40]"
  by code_simp







section \<open>The alert list\<close>

lemma alerts_row_ok:
  assumes "shipment_ok cols row"
  shows "\<exists>emitted. alerts_row cols row = Inr emitted
           \<and> map atype emitted =
               (if 5 \<le> shipments_number cols row then [''warning''] else [])
               @ (if py_in ''egg'' (lower (ingredient_text cols row)) then [''critical''] else [])"
proof -
  from assms obtain ing where ing: "row_item cols row ''Ingredient'' = Inr ing"
      "map_of (zip cols row) ''Ingredient'' = Some ing"
    using has_col_item unfolding shipment_ok_def by blast
  from assms obtain fr where fr: "row_item cols row ''frequency'' = Inr fr"
    using has_col_item unfolding shipment_ok_def by blast
  from assms obtain u where u: "row_item cols row ''Unit of shipment'' = Inr u"
    using has_col_item unfolding shipment_ok_def by blast
  from assms obtain kq q where q: "row_item cols row ''Quantity per shipment'' = Inr (Num kq q)" "q \<noteq> NaN"
    using num_col_item unfolding shipment_ok_def by blast
  from assms obtain kn n where n: "row_item cols row ''Number of shipments'' = Inr (Num kn n)"
      "map_of (zip cols row) ''Number of shipments'' = Some (Num kn n)" "n \<noteq> NaN"
    using num_col_item unfolding shipment_ok_def by blast
  obtain i where i: "py_int (Num kn n) = Inr i" using py_int_number[OF n(3)] by blast
  obtain t where t: "py_int (Num (mix kq kn) (num_mul q n)) = Inr t"
    using py_int_number[OF num_mul_number[OF q(2) n(3)]] by blast
  have sn: "(case num_rat n of None \<Rightarrow> False | Some x \<Rightarrow> of_int 5 \<le> x) = (5 \<le> shipments_number cols row)"
    using n(2,3) by (cases n) (simp_all add: shipments_number_def num_rat_def)
  show ?thesis
    unfolding alerts_row_def
    using sn
    by (simp add: ing fr u q n i t Let_def ingredient_text_def)
qed

lemma alerts_row_types:
  assumes "alerts_row cols row = Inr emitted"
  shows "map atype emitted =
           (if 5 \<le> shipments_number cols row then [''warning''] else [])
           @ (if py_in ''egg'' (lower (ingredient_text cols row)) then [''critical''] else [])"
proof -
  from assms obtain ing n high warn crit where
    ing: "row_item cols row ''Ingredient'' = Inr ing"
    and n: "row_item cols row ''Number of shipments'' = Inr n"
    and high: "py_ge n 5 = Inr high"
    and warn: "(if high
            then ebind (py_int n) (\<lambda>k.
                 ebind (row_item cols row ''frequency'') (\<lambda>fr.
                 Inr [\<lparr>atype = ''warning'',
                       title = py_str ing @ '' - High Frequency'',
                       message = show_int k @ '' shipments '' @ py_str fr\<rparr>]))
            else Inr []) = Inr warn"
    and crit: "(if py_in ''egg'' (lower (py_str ing))
            then ebind (row_item cols row ''Quantity per shipment'') (\<lambda>q.
                 ebind (row_item cols row ''Number of shipments'') (\<lambda>n2.
                 ebind (py_mul q n2) (\<lambda>prod.
                 ebind (py_int prod) (\<lambda>total.
                 ebind (row_item cols row ''Unit of shipment'') (\<lambda>unit.
                 ebind (row_item cols row ''frequency'') (\<lambda>fr.
                 Inr [\<lparr>atype = ''critical'',
                       title = py_str ing @ '' - Critical Item'',
                       message = ''Requires '' @ show_int total @ '' '' @ py_str unit
                                   @ '' per '' @ py_str fr\<rparr>]))))))
            else Inr []) = Inr crit"
    and emitted: "emitted = warn @ crit"
    unfolding alerts_row_def Let_def ebind_Inr_iff by auto
  from ing have ingt: "ingredient_text cols row = py_str ing"
    by (auto simp: row_item_def ingredient_text_def split: option.splits)
  from n have nm: "map_of (zip cols row) ''Number of shipments'' = Some n"
    by (auto simp: row_item_def split: option.splits)
  from high obtain kn m where m: "n = Num kn m"
    and hm: "high = (case num_rat m of None \<Rightarrow> False | Some x \<Rightarrow> of_int 5 \<le> x)"
    by (cases n) auto
  have sn: "high = (5 \<le> shipments_number cols row)"
    unfolding hm using nm m by (cases m) (simp_all add: shipments_number_def num_rat_def)
  have w: "map atype warn = (if 5 \<le> shipments_number cols row then [''warning''] else [])"
    using warn sn by (auto simp: ebind_Inr_iff split: if_splits)
  have c: "map atype crit = (if py_in ''egg'' (lower (ingredient_text cols row)) then [''critical''] else [])"
    using crit ingt by (auto simp: ebind_Inr_iff split: if_splits)
  show ?thesis unfolding emitted using w c by simp
qed

text \<open>
  C7. Whenever \<^verbatim>\<open>alerts\<close> returns, it returns at most three alerts, and they are the
  first three of the alerts the rows emit, taken in the order of the rows, where a row
  emits a warning exactly when its number of shipments is at least 5 (so 5 does and 4 does
  not) and then a critical alert exactly when its ingredient contains "egg" in any case.
  This holds of every shipment table on which \<^verbatim>\<open>alerts\<close> returns, whatever its other
  cells hold; on a table whose rows are in order it does return.
\<close>

theorem alerts_capped_in_order:
  "(\<forall>out. alerts sd = Inr out \<longrightarrow> length out \<le> 3)
   \<and> (\<forall>out. alerts (Some \<lparr>columns = cols, rows = rs\<rparr>) = Inr out \<longrightarrow>
        (\<exists>per_row. emap (alerts_row cols) rs = Inr per_row
           \<and> out = take 3 (concat per_row)
           \<and> list_all2 (\<lambda>row emitted. map atype emitted =
                 (if 5 \<le> shipments_number cols row then [''warning''] else [])
                 @ (if py_in ''egg'' (lower (ingredient_text cols row)) then [''critical''] else []))
               rs per_row))
   \<and> (list_all (shipment_ok cols) rs \<longrightarrow>
        (\<exists>out. alerts (Some \<lparr>columns = cols, rows = rs\<rparr>) = Inr out))"
proof (intro conjI allI impI)
  fix out assume "alerts sd = Inr out"
  then show "length out \<le> 3"
    by (cases sd) (auto simp: alerts_def ebind_Inr_iff)
next
  fix out assume ret: "alerts (Some \<lparr>columns = cols, rows = rs\<rparr>) = Inr out"
  then obtain per_row where pr: "emap (alerts_row cols) rs = Inr per_row"
    and out: "out = take 3 (concat per_row)"
    by (auto simp: alerts_def ebind_Inr_iff)
  have "list_all2 (\<lambda>row emitted. alerts_row cols row = Inr emitted) rs per_row"
    using emap_Inr_all2[OF pr] .
  then have "list_all2 (\<lambda>row emitted. map atype emitted =
                 (if 5 \<le> shipments_number cols row then [''warning''] else [])
                 @ (if py_in ''egg'' (lower (ingredient_text cols row)) then [''critical''] else []))
               rs per_row"
    by (rule list_all2_mono) (rule alerts_row_types)
  with pr out show "\<exists>per_row. emap (alerts_row cols) rs = Inr per_row
           \<and> out = take 3 (concat per_row)
           \<and> list_all2 (\<lambda>row emitted. map atype emitted =
                 (if 5 \<le> shipments_number cols row then [''warning''] else [])
                 @ (if py_in ''egg'' (lower (ingredient_text cols row)) then [''critical''] else []))
               rs per_row"
    by blast
next
  assume ok: "list_all (shipment_ok cols) rs"
  have "list_all (\<lambda>r. \<exists>y. alerts_row cols r = Inr y) rs"
    unfolding list_all_iff
  proof
    fix r assume "r \<in> set rs"
    then have "shipment_ok cols r" using ok by (simp add: list_all_iff)
    from alerts_row_ok[OF this] show "\<exists>y. alerts_row cols r = Inr y" by blast
  qed
  then obtain per_row where pr: "emap (alerts_row cols) rs = Inr per_row"
    using emap_total by blast
  then show "\<exists>out. alerts (Some \<lparr>columns = cols, rows = rs\<rparr>) = Inr out"
    by (simp add: alerts_def)
qed

text \<open>
  The sample table, whose fourth row would emit a fourth alert, and a table whose one row
  has a blank quantity and 5 shipments: the row is not in order, and its warning is
  returned all the same.
\<close>

theorem alerts_capped_in_order_witness:
  "list_all (shipment_ok shipment_columns) sample_shipments
   \<and> (\<exists>out. alerts (Some \<lparr>columns = shipment_columns, rows = sample_shipments\<rparr>) = Inr out)
   \<and> alerts (Some \<lparr>columns = shipment_columns, rows = sample_shipments\<rparr>)
     = Inr [\<lparr>atype = ''warning'', title = ''Ramen - High Frequency'', message = ''5 shipments weekly''\<rparr>,
            \<lparr>atype = ''warning'', title = ''Eggs - High Frequency'', message = ''6 shipments weekly''\<rparr>,
            \<lparr>atype = ''critical'', title = ''Eggs - Critical Item'', message = ''Requires 72 dozen per weekly''\<rparr>]
   \<and> length [\<lparr>atype = ''warning'', title = ''Ramen - High Frequency'', message = ''5 shipments weekly''\<rparr>,
            \<lparr>atype = ''warning'', title = ''Eggs - High Frequency'', message = ''6 shipments weekly''\<rparr>,
            \<lparr>atype = ''critical'', title = ''Eggs - Critical Item'', message = ''Requires 72 dozen per weekly''\<rparr>] \<le> 3
   \<and> \<not> list_all (shipment_ok shipment_columns) blank_quantity
   \<and> alerts (Some \<lparr>columns = shipment_columns, rows = blank_quantity\<rparr>)
     = Inr [\<lparr>atype = ''warning'', title = ''Rice - High Frequency'', message = ''5 shipments weekly''\<rparr>]
   \<and> (\<exists>per_row. emap (alerts_row shipment_columns) blank_quantity = Inr per_row
           \<and> [\<lparr>atype = ''warning'', title = ''Rice - High Frequency'', message = ''5 shipments weekly''\<rparr>]
               = take 3 (concat per_row)
           \<and> list_all2 (\<lambda>row emitted. map atype emitted =
                 (if 5 \<le> shipments_number shipment_columns row then [''warning''] else [])
                 @ (if py_in ''egg'' (lower (ingredient_text shipment_columns row)) then [''critical''] else []))
               blank_quantity per_row)"
proof (intro conjI)
  show ok: "list_all (shipment_ok shipment_columns) sample_shipments" by code_simp
  show "\<exists>out. alerts (Some \<lparr>columns = shipment_columns, rows = sample_shipments\<rparr>) = Inr out"
    by (rule alerts_capped_in_order[of None shipment_columns sample_shipments,
          THEN conjunct2, THEN conjunct2, THEN mp, OF ok])
  show ev: "alerts (Some \<lparr>columns = shipment_columns, rows = sample_shipments\<rparr>)
     = Inr [\<lparr>atype = ''warning'', title = ''Ramen - High Frequency'', message = ''5 shipments weekly''\<rparr>,
            \<lparr>atype = ''warning'', title = ''Eggs - High Frequency'', message = ''6 shipments weekly''\<rparr>,
            \<lparr>atype = ''critical'', title = ''Eggs - Critical Item'', message = ''Requires 72 dozen per weekly''\<rparr>]"
    by code_simp
  show "length [\<lparr>atype = ''warning'', title = ''Ramen - High Frequency'', message = ''5 shipments weekly''\<rparr>,
            \<lparr>atype = ''warning'', title = ''Eggs - High Frequency'', message = ''6 shipments weekly''\<rparr>,
            \<lparr>atype = ''critical'', title = ''Eggs - Critical Item'', message = ''Requires 72 dozen per weekly''\<rparr>] \<le> 3"
    by (rule alerts_capped_in_order[of "Some \<lparr>columns = shipment_columns, rows = sample_shipments\<rparr>" shipment_columns sample_shipments,
          THEN conjunct1, rule_format, OF ev])
  show "\<not> list_all (shipment_ok shipment_columns) blank_quantity" by code_simp
  show blank: "alerts (Some \<lparr>columns = shipment_columns, rows = blank_quantity\<rparr>)
     = Inr [\<lparr>atype = ''warning'', title = ''Rice - High Frequency'', message = ''5 shipments weekly''\<rparr>]"
    by code_simp
  show "\<exists>per_row. emap (alerts_row shipment_columns) blank_quantity = Inr per_row
           \<and> [\<lparr>atype = ''warning'', title = ''Rice - High Frequency'', message = ''5 shipments weekly''\<rparr>]
               = take 3 (concat per_row)
           \<and> list_all2 (\<lambda>row emitted. map atype emitted =
                 (if 5 \<le> shipments_number shipment_columns row then [''warning''] else [])
                 @ (if py_in ''egg'' (lower (ingredient_text shipment_columns row)) then [''critical''] else []))
               blank_quantity per_row"
    by (rule alerts_capped_in_order[of None shipment_columns blank_quantity,
          THEN conjunct2, THEN conjunct1, THEN spec, THEN mp, OF blank])
qed

section \<open>The coercion helper\<close>

text \<open>
  The helper always returns: \<^verbatim>\<open>None\<close> and the native NaN give the default, and so does
  whatever makes the body raise.
\<close>

lemma safe_val_None: "safe_val PyNone d = d"
  by (simp add: safe_val_def safe_val_try_def)

lemma safe_val_native_nan: "safe_val (Num Native NaN) d = d"
  by (simp add: safe_val_def safe_val_try_def)

lemma safe_val_failure: "safe_val_try v d = Inl e \<Longrightarrow> safe_val v d = d"
  by (simp add: safe_val_def)

lemma safe_val_list_of_two: "safe_val (PyList [x, y]) d = d"
  by (simp add: safe_val_def safe_val_try_def)

text \<open>
  C8 (the code departs from the claim). The claim wants a not-a-number value to give the
  default, and a second application to change nothing. On the numpy NaN
  \<^verbatim>\<open>np.float64('nan')\<close> with the default 0, \<^verbatim>\<open>safe_val\<close> unwraps the value before it
  looks for NaN and returns the native NaN; applied to that result it returns 0.
\<close>

theorem safe_val_numpy_nan_not_defaulted:
  "safe_val (Num Numpy NaN) (Num Native (I 0)) = Num Native NaN
   \<and> safe_val (safe_val (Num Numpy NaN) (Num Native (I 0))) (Num Native (I 0)) = Num Native (I 0)"
  by code_simp

section \<open>Menu complexity\<close>

lemma notna_Inr_iff: "notna_truth v = Inr b \<longleftrightarrow> isna_truth v = Inr (\<not> b)"
  by (cases "isna_truth v") (auto simp: notna_truth_def)

lemma used_ingredients_length:
  "used_ingredients cols row cs = Inr xs \<Longrightarrow> length xs = length (filter (used_column cols row) cs)"
proof (induction cs arbitrary: xs)
  case Nil
  then show ?case by simp
next
  case (Cons c cs)
  from Cons.prems obtain v present more where
    v: "row_item cols row c = Inr v" and p: "notna_truth v = Inr present"
    and m: "used_ingredients cols row cs = Inr more"
    and xs: "xs = (if present \<and> ne_zero v \<and> ne_empty v then clean c # more else more)"
    by (auto simp: ebind_Inr_iff)
  from v have mv: "map_of (zip cols row) c = Some v"
    by (auto simp: row_item_def split: option.splits)
  have "used_column cols row c = (present \<and> ne_zero v \<and> ne_empty v)"
    using p by (auto simp: used_column_def mv notna_Inr_iff)
  then show ?case using Cons.IH[OF m] xs by simp
qed

lemma plain_isna: "plain_cell v \<Longrightarrow> \<exists>b. isna_truth v = Inr b"
  by (cases v) auto

lemma used_ingredients_total:
  "list_all (\<lambda>c. case map_of (zip cols row) c of Some v \<Rightarrow> plain_cell v | None \<Rightarrow> False) cs
   \<Longrightarrow> \<exists>xs. used_ingredients cols row cs = Inr xs"
proof (induction cs)
  case Nil
  show ?case by simp
next
  case (Cons c cs)
  from Cons.prems obtain v where v: "map_of (zip cols row) c = Some v" "plain_cell v"
    by (auto split: option.splits)
  from plain_isna[OF v(2)] obtain b where b: "isna_truth v = Inr b" by blast
  from Cons obtain more where m: "used_ingredients cols row cs = Inr more" by auto
  show ?case by (simp add: row_item_def v notna_truth_def b m)
qed

lemma quantity_scan_step:
  assumes "quantity_cell v"
  shows "(\<exists>s. ebind (notna_truth v) (\<lambda>present.
          if present
          then ebind (py_gt v 0) (\<lambda>positive.
               if positive then ebind (py_int v) (\<lambda>k. Inr (show_int k))
               else rest)
          else rest) = Inr s) \<or> ebind (notna_truth v) (\<lambda>present.
          if present
          then ebind (py_gt v 0) (\<lambda>positive.
               if positive then ebind (py_int v) (\<lambda>k. Inr (show_int k))
               else rest)
          else rest) = rest"
proof (cases v)
  case PyNone
  then show ?thesis by (simp add: notna_truth_def)
next
  case (Num k n)
  then show ?thesis by (cases n) (simp_all add: notna_truth_def num_rat_def)
next
  case (Txt s)
  then show ?thesis using assms by simp
next
  case (PyList xs)
  then show ?thesis using assms by simp
qed

lemma protein_scan_total:
  "list_all (\<lambda>c. case map_of (zip cols row) c of Some v \<Rightarrow> quantity_cell v | None \<Rightarrow> True) cs
   \<Longrightarrow> \<exists>s. protein_scan cols row cs = Inr s"
proof (induction cs)
  case Nil
  show ?case by simp
next
  case (Cons c cs)
  then obtain s where s: "protein_scan cols row cs = Inr s" by auto
  show ?case
  proof (cases "map_of (zip cols row) c")
    case None
    then show ?thesis using s by simp
  next
    case (Some v)
    with Cons.prems have "quantity_cell v" by simp
    from quantity_scan_step[OF this, of "protein_scan cols row cs"] show ?thesis
      using s Some by auto
  qed
qed

lemma matrix_row_ok: "matrix_ok cols row \<Longrightarrow> \<exists>e. matrix_row cols row = Inr e"
proof -
  assume ok: "matrix_ok cols row"
  from ok obtain xs where xs: "used_ingredients cols row (tl cols) = Inr xs"
    using used_ingredients_total unfolding matrix_ok_def by blast
  from ok obtain s where s: "protein_scan cols row [''braised beef used (g)'', ''Braised Chicken(g)'', ''Braised Pork(g)''] = Inr s"
    using protein_scan_total unfolding matrix_ok_def by blast
  from ok obtain nm where nm: "row_item cols row ''Item name'' = Inr nm"
    using has_col_item unfolding matrix_ok_def by blast
  show ?thesis unfolding matrix_row_def by (simp add: xs s nm del: protein_scan.simps)
qed

lemma matrix_row_complexity:
  "matrix_row cols row = Inr e \<Longrightarrow> complexity e = tier (used_count cols row)"
  by (auto simp: matrix_row_def ebind_Inr_iff used_count_def dest: used_ingredients_length)

lemma tier_cases:
  "(n \<le> 3 \<and> tier n = ''Low'') \<or> (4 \<le> n \<and> n \<le> 6 \<and> tier n = ''Medium'') \<or> (7 \<le> n \<and> tier n = ''High'')"
  by (auto simp: tier_def)

text \<open>
  C9. Whenever \<^verbatim>\<open>ingredient_matrix\<close> returns, the complexity of every row is "Low"
  when at most 3 of the columns after the item name are used, "Medium" when 4 to 6 are,
  and "High" when 7 or more are. On a table whose rows are in order it does return.
\<close>

theorem complexity_tiers:
  "(\<forall>m. ingredient_matrix (Some df) = Inr m \<longrightarrow>
      list_all2 (\<lambda>row e.
          (used_count (columns df) row \<le> 3 \<and> complexity e = ''Low'')
          \<or> (4 \<le> used_count (columns df) row \<and> used_count (columns df) row \<le> 6 \<and> complexity e = ''Medium'')
          \<or> (7 \<le> used_count (columns df) row \<and> complexity e = ''High''))
        (rows df) m)
   \<and> (list_all (matrix_ok (columns df)) (rows df) \<longrightarrow> (\<exists>m. ingredient_matrix (Some df) = Inr m))"
proof (intro conjI allI impI)
  fix m assume "ingredient_matrix (Some df) = Inr m"
  then have "list_all2 (\<lambda>row e. matrix_row (columns df) row = Inr e) (rows df) m"
    by (simp add: ingredient_matrix_def emap_Inr_all2)
  then show "list_all2 (\<lambda>row e.
          (used_count (columns df) row \<le> 3 \<and> complexity e = ''Low'')
          \<or> (4 \<le> used_count (columns df) row \<and> used_count (columns df) row \<le> 6 \<and> complexity e = ''Medium'')
          \<or> (7 \<le> used_count (columns df) row \<and> complexity e = ''High''))
        (rows df) m"
  proof (rule list_all2_mono)
    fix row e assume "matrix_row (columns df) row = Inr e"
    from matrix_row_complexity[OF this] tier_cases[of "used_count (columns df) row"]
    show "(used_count (columns df) row \<le> 3 \<and> complexity e = ''Low'')
          \<or> (4 \<le> used_count (columns df) row \<and> used_count (columns df) row \<le> 6 \<and> complexity e = ''Medium'')
          \<or> (7 \<le> used_count (columns df) row \<and> complexity e = ''High'')"
      by simp
  qed
next
  assume ok: "list_all (matrix_ok (columns df)) (rows df)"
  have "list_all (\<lambda>r. \<exists>e. matrix_row (columns df) r = Inr e) (rows df)"
    unfolding list_all_iff
  proof
    fix r assume "r \<in> set (rows df)"
    then have "matrix_ok (columns df) r" using ok by (simp add: list_all_iff)
    then show "\<exists>e. matrix_row (columns df) r = Inr e" by (rule matrix_row_ok)
  qed
  from emap_total[OF this] show "\<exists>m. ingredient_matrix (Some df) = Inr m"
    by (simp add: ingredient_matrix_def)
qed

theorem complexity_tiers_witness:
  "list_all (matrix_ok (columns sample_menu)) (rows sample_menu)
   \<and> map (used_count (columns sample_menu)) (rows sample_menu) = [3, 4, 7]
   \<and> ingredient_matrix (Some sample_menu) =
       Inr [\<lparr>menuItem = Txt ''Beef Fried Rice'', keyIngredients = ''braised beef used, Egg, Rice'',
             protein = ''140'', complexity = ''Low''\<rparr>,
            \<lparr>menuItem = Txt ''Chicken Ramen'', keyIngredients = ''Braised Chicken, Egg, Ramen, Green Onion'',
             protein = ''120'', complexity = ''Medium''\<rparr>,
            \<lparr>menuItem = Txt ''House Special'', keyIngredients = ''braised beef used, Braised Chicken, Egg, Ramen'',
             protein = ''100'', complexity = ''High''\<rparr>]
   \<and> (\<exists>m. ingredient_matrix (Some sample_menu) = Inr m
        \<and> list_all2 (\<lambda>row e.
          (used_count (columns sample_menu) row \<le> 3 \<and> complexity e = ''Low'')
          \<or> (4 \<le> used_count (columns sample_menu) row \<and> used_count (columns sample_menu) row \<le> 6 \<and> complexity e = ''Medium'')
          \<or> (7 \<le> used_count (columns sample_menu) row \<and> complexity e = ''High''))
        (rows sample_menu) m)"
proof (intro conjI)
  show ok: "list_all (matrix_ok (columns sample_menu)) (rows sample_menu)" by code_simp
  show "map (used_count (columns sample_menu)) (rows sample_menu) = [3, 4, 7]" by code_simp
  show "ingredient_matrix (Some sample_menu) =
       Inr [\<lparr>menuItem = Txt ''Beef Fried Rice'', keyIngredients = ''braised beef used, Egg, Rice'',
             protein = ''140'', complexity = ''Low''\<rparr>,
            \<lparr>menuItem = Txt ''Chicken Ramen'', keyIngredients = ''Braised Chicken, Egg, Ramen, Green Onion'',
             protein = ''120'', complexity = ''Medium''\<rparr>,
            \<lparr>menuItem = Txt ''House Special'', keyIngredients = ''braised beef used, Braised Chicken, Egg, Ramen'',
             protein = ''100'', complexity = ''High''\<rparr>]"
    by code_simp
  from complexity_tiers[of sample_menu, THEN conjunct2, THEN mp, OF ok]
  obtain m where m: "ingredient_matrix (Some sample_menu) = Inr m" by (rule exE)
  from complexity_tiers[of sample_menu, THEN conjunct1, rule_format, OF m] m
  show "\<exists>m. ingredient_matrix (Some sample_menu) = Inr m
        \<and> list_all2 (\<lambda>row e.
          (used_count (columns sample_menu) row \<le> 3 \<and> complexity e = ''Low'')
          \<or> (4 \<le> used_count (columns sample_menu) row \<and> used_count (columns sample_menu) row \<le> 6 \<and> complexity e = ''Medium'')
          \<or> (7 \<le> used_count (columns sample_menu) row \<and> complexity e = ''High''))
        (rows sample_menu) m"
    by (intro exI[of _ m] conjI)
qed

section \<open>The pork entry\<close>

lemma protein_row_keeps_pork:
  assumes "protein_row cols row ps = Inr ps'" "map_of ps ''pork'' = None"
  shows "map_of ps' ''pork'' = None"
  using assms
  by (auto simp: protein_row_def Let_def ebind_Inr_iff update_conv split: if_splits)

lemma efold_protein_keeps_pork:
  "efold (protein_row cols) rs ps = Inr ps' \<Longrightarrow> map_of ps ''pork'' = None \<Longrightarrow> map_of ps' ''pork'' = None"
proof (induction rs arbitrary: ps)
  case Nil
  then show ?case by simp
next
  case (Cons r rs)
  from Cons.prems(1) obtain mid where m: "protein_row cols r ps = Inr mid" "efold (protein_row cols) rs mid = Inr ps'"
    by (auto simp: ebind_Inr_iff)
  show ?case using Cons.IH[OF m(2)] protein_row_keeps_pork[OF m(1) Cons.prems(2)] by simp
qed

lemma py_truediv_number: "py_truediv (Num k a) d = Inr (Num k (num_div a d))"
  by simp

lemma protein_row_ok:
  assumes "shipment_ok cols row"
  shows "\<exists>ps'. protein_row cols row ps = Inr ps'"
proof -
  from assms obtain ing where ing: "row_item cols row ''Ingredient'' = Inr ing"
    using has_col_item unfolding shipment_ok_def by blast
  from assms obtain fr where fr: "row_item cols row ''frequency'' = Inr fr"
    using has_col_item unfolding shipment_ok_def by blast
  from assms obtain u where u: "row_item cols row ''Unit of shipment'' = Inr u"
    using has_col_item unfolding shipment_ok_def by blast
  from assms obtain kq q where q: "row_item cols row ''Quantity per shipment'' = Inr (Num kq q)" "q \<noteq> NaN"
    using num_col_item unfolding shipment_ok_def by blast
  from assms obtain kn n where n: "row_item cols row ''Number of shipments'' = Inr (Num kn n)" "n \<noteq> NaN"
    using num_col_item unfolding shipment_ok_def by blast
  obtain i where i: "py_int (Num kn n) = Inr i" using py_int_number[OF n(2)] by blast
  have pn: "num_mul q n \<noteq> NaN" using num_mul_number[OF q(2) n(2)] .
  obtain t where t: "py_int (Num (mix kq kn) (num_mul q n)) = Inr t"
    using py_int_number[OF pn] by blast
  obtain t2 where t2: "py_int (Num (mix kq kn) (num_div (num_mul q n) 2)) = Inr t2"
    using py_int_number[OF num_div_number[OF pn]] by blast
  obtain t4 where t4: "py_int (Num (mix kq kn) (num_div (num_mul q n) 4)) = Inr t4"
    using py_int_number[OF num_div_number[OF pn]] by blast
  show ?thesis
    unfolding protein_row_def protein_amount_def
    by (simp add: ing fr u q n i t t2 t4 Let_def)
qed

lemma efold_protein_total:
  "list_all (shipment_ok cols) rs \<Longrightarrow> \<exists>ps'. efold (protein_row cols) rs ps = Inr ps'"
proof (induction rs arbitrary: ps)
  case Nil
  show ?case by simp
next
  case (Cons r rs)
  from Cons.prems have r: "shipment_ok cols r" and rs: "list_all (shipment_ok cols) rs" by simp_all
  from protein_row_ok[OF r] obtain mid where mid: "protein_row cols r ps = Inr mid" by blast
  from Cons.IH[OF rs] obtain ps' where "efold (protein_row cols) rs mid = Inr ps'" by blast
  then show ?case using mid by simp
qed

text \<open>
  C10. Whenever \<^verbatim>\<open>protein_forecast\<close> returns on a shipment table that is there, the
  result has a pork entry and it is the placeholder of 40 lbs, "estimated": no row ever
  writes that key. On a table whose rows are in order it does return.
\<close>

theorem pork_is_always_the_placeholder:
  "(\<forall>p. protein_forecast (Some df) = Inr p \<longrightarrow> map_of p ''pork'' = Some pork_placeholder)
   \<and> (list_all (shipment_ok (columns df)) (rows df) \<longrightarrow> (\<exists>p. protein_forecast (Some df) = Inr p))"
proof (intro conjI allI impI)
  fix p assume "protein_forecast (Some df) = Inr p"
  then obtain ps where ps: "efold (protein_row (columns df)) (rows df) [] = Inr ps"
    and p: "p = (if map_of ps ''pork'' = None then AList.update ''pork'' pork_placeholder ps else ps)"
    by (auto simp: protein_forecast_def ebind_Inr_iff)
  have "map_of ps ''pork'' = None" using efold_protein_keeps_pork[OF ps] by simp
  then show "map_of p ''pork'' = Some pork_placeholder" using p by (simp add: update_conv)
next
  assume "list_all (shipment_ok (columns df)) (rows df)"
  from efold_protein_total[OF this] obtain ps where "efold (protein_row (columns df)) (rows df) [] = Inr ps"
    by blast
  then show "\<exists>p. protein_forecast (Some df) = Inr p" by (simp add: protein_forecast_def)
qed

theorem pork_is_always_the_placeholder_witness:
  "list_all (shipment_ok (columns sample_proteins)) (rows sample_proteins)
   \<and> protein_forecast (Some sample_proteins)
       = Inr [(''beef'', \<lparr>amount = ''15 lbs'', shipments = ''3 shipments''\<rparr>),
              (''pork'', \<lparr>amount = ''40 lbs'', shipments = ''estimated''\<rparr>)]
   \<and> map_of [(''beef'', \<lparr>amount = ''15 lbs'', shipments = ''3 shipments''\<rparr>),
              (''pork'', \<lparr>amount = ''40 lbs'', shipments = ''estimated''\<rparr>)] ''pork'' = Some pork_placeholder
   \<and> (\<exists>p. protein_forecast (Some sample_proteins) = Inr p)"
proof (intro conjI)
  show ok: "list_all (shipment_ok (columns sample_proteins)) (rows sample_proteins)" by code_simp
  show ev: "protein_forecast (Some sample_proteins)
       = Inr [(''beef'', \<lparr>amount = ''15 lbs'', shipments = ''3 shipments''\<rparr>),
              (''pork'', \<lparr>amount = ''40 lbs'', shipments = ''estimated''\<rparr>)]"
    by code_simp
  show "map_of [(''beef'', \<lparr>amount = ''15 lbs'', shipments = ''3 shipments''\<rparr>),
              (''pork'', \<lparr>amount = ''40 lbs'', shipments = ''estimated''\<rparr>)] ''pork'' = Some pork_placeholder"
    by (rule pork_is_always_the_placeholder[of sample_proteins, THEN conjunct1, rule_format, OF ev])
  show "\<exists>p. protein_forecast (Some sample_proteins) = Inr p"
    by (rule pork_is_always_the_placeholder[of sample_proteins, THEN conjunct2, THEN mp, OF ok])
qed

end
